theory Spec2Isabelle
  imports Main "HOL-Library.Word" "HOL-Library.Sublist"
begin

section \<open>Values exchanged with the remote services\<close>

text \<open>
  \<open>main.py\<close> is a FastAPI handler that chains two text completions, one remote image
  generation, one file read and one file write. What \<open>main.py\<close> cannot determine is a
  field of the record \<open>world\<close> below: the registry imported from \<open>bot_prompts\<close>, the two
  remote services, \<open>json.loads\<close>, \<open>uuid.uuid4\<close> and the file store. Library functions with
  a fixed meaning (\<open>str.title\<close>, \<open>str.rstrip\<close>, \<open>os.path.join\<close>, \<open>base64.b64encode\<close>, the printed
  form of a UUID) are written out.

  What \<open>json.loads\<close> and the image service hand back is a dynamically typed Python value.
  Numbers are integers here; no function of \<open>main.py\<close> computes with them.
\<close>

type_synonym byte = "8 word"

datatype json =
    JNull
  | JBool bool
  | JInt int
  | JString string
  | JList "json list"
  | JDict "(string \<times> json) list"

text \<open>Python truthiness, as used by \<open>result and ...\<close> and \<open>result[0].get("image")\<close>.\<close>

fun truthy :: "json \<Rightarrow> bool" where
  "truthy JNull = False"
| "truthy (JBool b) = b"
| "truthy (JInt n) = (n \<noteq> 0)"
| "truthy (JString s) = (s \<noteq> [])"
| "truthy (JList xs) = (xs \<noteq> [])"
| "truthy (JDict kvs) = (kvs \<noteq> [])"

text \<open>\<open>d.get(k, default)\<close> on a dictionary held as an association list with distinct keys.\<close>

definition dict_get :: "(string \<times> json) list \<Rightarrow> string \<Rightarrow> json \<Rightarrow> json" where
  "dict_get kvs k dflt = (case map_of kvs k of None \<Rightarrow> dflt | Some v \<Rightarrow> v)"

section \<open>String helpers of the Python library\<close>

definition apostrophe :: char where
  "apostrophe = CHR 0x27"

definition newline :: char where
  "newline = CHR 0x0A"

text \<open>\<open>s.replace("_", " ")\<close>\<close>

definition replace_underscore :: "string \<Rightarrow> string" where
  "replace_underscore s = map (\<lambda>c. if c = CHR ''_'' then CHR '' '' else c) s"

definition is_lower :: "char \<Rightarrow> bool" where
  "is_lower c = ((97::nat) \<le> of_char c \<and> of_char c \<le> (122::nat))"

definition is_upper :: "char \<Rightarrow> bool" where
  "is_upper c = ((65::nat) \<le> of_char c \<and> of_char c \<le> (90::nat))"

definition to_upper :: "char \<Rightarrow> char" where
  "to_upper c = (if is_lower c then char_of (of_char c - (32::nat)) else c)"

definition to_lower :: "char \<Rightarrow> char" where
  "to_lower c = (if is_upper c then char_of (of_char c + (32::nat)) else c)"

text \<open>
  \<open>str.title()\<close> on ASCII text: a letter that follows a letter is lower-cased, any other
  letter is upper-cased. The flag is CPython's \<open>previous_is_cased\<close>.
\<close>

fun title_from :: "bool \<Rightarrow> string \<Rightarrow> string" where
  "title_from prev [] = []"
| "title_from prev (c # cs) =
     (if is_lower c then (if prev then c else to_upper c) # title_from True cs
      else if is_upper c then (if prev then to_lower c else c) # title_from True cs
      else c # title_from False cs)"

definition title :: "string \<Rightarrow> string" where
  "title s = title_from False s"

text \<open>\<open>s.rstrip('/')\<close>\<close>

definition rstrip_slash :: "string \<Rightarrow> string" where
  "rstrip_slash s = rev (dropWhile (\<lambda>c. c = CHR ''/'') (rev s))"

text \<open>
  \<open>os.path.join(a, b)\<close> of \<open>posixpath\<close> for two components: an absolute second
  component discards the first one.
\<close>

definition os_path_join :: "string \<Rightarrow> string \<Rightarrow> string" where
  "os_path_join a b =
     (if b \<noteq> [] \<and> hd b = CHR ''/'' then b
      else if a = [] \<or> last a = CHR ''/'' then a @ b
      else a @ ''/'' @ b)"

section \<open>Base64 (RFC 4648, standard alphabet, with padding)\<close>

definition b64_alphabet :: string where
  "b64_alphabet = ''ABCDEFGHIJKLMNOPQRSTUVWXYZabcdefghijklmnopqrstuvwxyz0123456789+/''"

definition b64_char :: "nat \<Rightarrow> char" where
  "b64_char i = b64_alphabet ! i"

text \<open>\<open>base64.b64encode(image_bytes).decode('utf-8')\<close>: the output is ASCII.\<close>

fun b64encode :: "byte list \<Rightarrow> string" where
  "b64encode [] = []"
| "b64encode [a] =
     (let n = unat a * 16
      in [b64_char (n div 64), b64_char (n mod 64), CHR ''='', CHR ''=''])"
| "b64encode [a, b] =
     (let n = (unat a * 256 + unat b) * 4
      in [b64_char (n div 4096), b64_char (n div 64 mod 64), b64_char (n mod 64), CHR ''=''])"
| "b64encode (a # b # c # rest) =
     (let n = unat a * 65536 + unat b * 256 + unat c
      in [b64_char (n div 262144), b64_char (n div 4096 mod 64),
          b64_char (n div 64 mod 64), b64_char (n mod 64)] @ b64encode rest)"

text \<open>The position of a character in the alphabet, \<open>None\<close> outside it.\<close>

fun index_of :: "char \<Rightarrow> string \<Rightarrow> nat option" where
  "index_of c [] = None"
| "index_of c (x # xs) =
     (if c = x then Some 0 else map_option Suc (index_of c xs))"

definition b64_index :: "char \<Rightarrow> nat option" where
  "b64_index c = index_of c b64_alphabet"

text \<open>
  The decoder a client applies to \<open>image_base64\<close>: groups of four characters, padding only
  in the last group, \<open>None\<close> on anything else.
\<close>

fun b64decode :: "string \<Rightarrow> byte list option" where
  "b64decode (c1 # c2 # c3 # c4 # rest) =
     (case (b64_index c1, b64_index c2) of
        (Some i1, Some i2) \<Rightarrow>
          (if c3 = CHR ''='' \<and> c4 = CHR ''='' \<and> rest = [] then
             Some [of_nat ((i1 * 64 + i2) div 16)]
           else (case b64_index c3 of
               None \<Rightarrow> None
             | Some i3 \<Rightarrow>
                 (if c4 = CHR ''='' \<and> rest = [] then
                    (let n = i1 * 4096 + i2 * 64 + i3
                     in Some [of_nat (n div 1024), of_nat (n div 4 mod 256)])
                  else (case (b64_index c4, b64decode rest) of
                      (Some i4, Some bs) \<Rightarrow>
                        (let n = i1 * 262144 + i2 * 4096 + i3 * 64 + i4
                         in Some (of_nat (n div 65536) # of_nat (n div 256 mod 256)
                                  # of_nat (n mod 256) # bs))
                    | _ \<Rightarrow> None))))
      | _ \<Rightarrow> None)"
| "b64decode [] = Some []"
| "b64decode _ = None"

section \<open>UUIDs\<close>

text \<open>
  \<open>uuid.uuid4()\<close> is a 128-bit value; \<open>str\<close> prints it as 32 lower-case hexadecimal digits,
  most significant first, grouped 8-4-4-4-12 by hyphens.
\<close>

type_synonym uuid = "128 word"

definition hex_digit :: "nat \<Rightarrow> char" where
  "hex_digit d = ''0123456789abcdef'' ! d"

text \<open>\<open>'%0kx' % n\<close> for a number below \<open>16 ^ k\<close>: the last digit is \<open>n mod 16\<close>.\<close>

fun hex_digits :: "nat \<Rightarrow> nat \<Rightarrow> string" where
  "hex_digits 0 n = []"
| "hex_digits (Suc k) n = hex_digits k (n div 16) @ [hex_digit (n mod 16)]"

definition hex32 :: "uuid \<Rightarrow> string" where
  "hex32 u = hex_digits 32 (unat u)"

definition uuid_str :: "uuid \<Rightarrow> string" where
  "uuid_str u =
     (let h = hex32 u
      in take 8 h @ ''-'' @ take 4 (drop 8 h) @ ''-'' @ take 4 (drop 12 h) @ ''-''
         @ take 4 (drop 16 h) @ ''-'' @ drop 20 h)"

section \<open>Requests, responses and the world around the handler\<close>

record ImageGenerationRequest =
  bot_id :: string
  message :: string
  email :: string
  previous_conversation :: "string option"
  username :: "string option"

text \<open>Of the incoming \<open>Request\<close> object the handler reads \<open>str(http_request.base_url)\<close> only.\<close>

record http_request =
  base_url :: string

record ImageGenerationResponse =
  resp_bot_id :: string
  image_url :: string
  image_base64 :: string
  status :: string
  emotion_context :: "(string \<times> string) list"

text \<open>
  The keyword arguments of \<open>litellm.completion\<close>. What comes back is either an exception or
  \<open>response.choices[0].message.content\<close>, which may be Python's \<open>None\<close>.
\<close>

record completion_request =
  model :: string
  messages :: "(string \<times> string) list"
  stream :: "bool option"
  max_tokens :: "nat option"
  response_format :: "(string \<times> string) list option"

datatype completion_outcome =
    CompletionRaises
  | CompletionContent "string option"

text \<open>The keyword arguments of \<open>gradio_client.predict\<close> and its outcome.\<close>

record predict_request =
  images :: "string list"
  prompt :: string
  negative_prompt :: string
  api_name :: string

datatype predict_outcome =
    PredictRaises
  | PredictReturns json

type_synonym client = "predict_request \<Rightarrow> predict_outcome"

text \<open>
  The world of one server process.
  \<^item> \<open>VALID_BOT_IDS\<close>: the keys of \<open>BOT_PROMPTS\<close>, imported from \<open>bot_prompts\<close>.
  \<^item> \<open>gradio_client\<close>: \<open>None\<close> while unset.
  \<^item> \<open>json_loads\<close>: \<open>None\<close> where \<open>json.loads\<close> raises.
  \<^item> \<open>str_of\<close>: Python's \<open>format\<close> of a value that is not a string (a string formats as
    itself); \<open>coerce_str\<close>: what the response model's \<open>str\<close> validator makes of such a value,
    \<open>None\<close> where it rejects it.
  \<^item> \<open>files\<close>: the readable files by path. \<open>os.path.exists\<close> holds of exactly these
    paths, opening another path for reading raises, and writing a file succeeds (the
    directory \<open>static/images\<close> is created when the module is loaded).
  \<^item> \<open>uuid4\<close>: the successive draws of \<open>uuid.uuid4()\<close>, \<open>uuid4_calls\<close> of them consumed.
\<close>

record world =
  VALID_BOT_IDS :: "string set"
  gradio_client :: "client option"
  completion :: "completion_request \<Rightarrow> completion_outcome"
  json_loads :: "string \<Rightarrow> json option"
  str_of :: "json \<Rightarrow> string"
  coerce_str :: "json \<Rightarrow> string option"
  files :: "string \<rightharpoonup> byte list"
  uuid4 :: "nat \<Rightarrow> uuid"
  uuid4_calls :: nat

text \<open>
  \<open>HTTPException\<close> carries \<open>status_code\<close> and \<open>detail\<close>. The other two are the exceptions
  that can leave the handler without passing through an \<open>except\<close> clause of \<open>main.py\<close>.
\<close>

datatype exn =
    HTTPException nat string
  | AttributeError
  | ValidationError

section \<open>ChatbotService\<close>

text \<open>\<open>initialize_gradio_client\<close>; the argument is the client built by \<open>Client(...)\<close>, \<open>None\<close>
  when the constructor raises.\<close>

definition initialize_gradio_client :: "world \<Rightarrow> client option \<Rightarrow> world" where
  "initialize_gradio_client w built =
     (case built of
        Some c \<Rightarrow> w\<lparr>gradio_client := Some c\<rparr>
      | None \<Rightarrow> w\<lparr>gradio_client := None\<rparr>)"

definition gemini_model :: string where
  "gemini_model = ''gemini/gemini-1.5-flash''"

definition reaction_request :: "ImageGenerationRequest \<Rightarrow> string \<Rightarrow> completion_request" where
  "reaction_request request_data bot_name =
     \<lparr>model = gemini_model,
      messages =
        [(''system'', ''You are '' @ bot_name
            @ ''. Briefly react to the user's message in a way that reveals emotion.''),
         (''user'', message request_data)],
      stream = Some False,
      max_tokens = Some 50,
      response_format = None\<rparr>"

definition reaction_fallback :: "string \<Rightarrow> string \<Rightarrow> string" where
  "reaction_fallback bot_name msg =
     bot_name @ '' is thinking about the message: '' @ [apostrophe] @ msg @ [apostrophe]"

definition get_bot_response_for_context ::
  "world \<Rightarrow> ImageGenerationRequest \<Rightarrow> string \<Rightarrow> string option" where
  "get_bot_response_for_context w request_data bot_name =
     (case completion w (reaction_request request_data bot_name) of
        CompletionContent c \<Rightarrow> c
      | CompletionRaises \<Rightarrow> Some (reaction_fallback bot_name (message request_data)))"

text \<open>The f-string prints \<open>None\<close> as the text \<open>None\<close>.\<close>

definition format_text :: "string option \<Rightarrow> string" where
  "format_text t = (case t of None \<Rightarrow> ''None'' | Some s \<Rightarrow> s)"

definition context_prompt :: "string option \<Rightarrow> string" where
  \<open>context_prompt t =
     [newline]
     @ ''        Analyze the following text and describe the scene in simple terms.'' @ [newline]
     @ ''        Text: "'' @ format_text t @ ''"'' @ [newline]
     @ ''        Respond ONLY with a JSON object with keys "emotion", "location", and "action".''
     @ [newline]
     @ ''        Example: {"emotion": "happy and smiling", "location": "at a bustling cafe", "action": "sipping a coffee"}''
     @ [newline]
     @ ''        ''\<close>

definition scene_request :: "string option \<Rightarrow> completion_request" where
  "scene_request t =
     \<lparr>model = gemini_model,
      messages = [(''user'', context_prompt t)],
      stream = None,
      max_tokens = None,
      response_format = Some [(''type'', ''json_object'')]\<rparr>"

definition default_context :: json where
  "default_context =
     JDict [(''emotion'', JString ''neutral''),
            (''location'', JString ''a room''),
            (''action'', JString ''looking at the camera'')]"

text \<open>\<open>json.loads(None)\<close> raises \<open>TypeError\<close>, which the \<open>except\<close> clause catches too.\<close>

definition extract_context :: "world \<Rightarrow> string option \<Rightarrow> json" where
  "extract_context w t =
     (case completion w (scene_request t) of
        CompletionRaises \<Rightarrow> default_context
      | CompletionContent None \<Rightarrow> default_context
      | CompletionContent (Some c) \<Rightarrow>
          (case json_loads w c of
             None \<Rightarrow> default_context
           | Some v \<Rightarrow> v))"

definition format_value :: "world \<Rightarrow> json \<Rightarrow> string" where
  "format_value w v = (case v of JString s \<Rightarrow> s | _ \<Rightarrow> str_of w v)"

definition prompt_text :: "world \<Rightarrow> string \<Rightarrow> (string \<times> json) list \<Rightarrow> string" where
  "prompt_text w bot_name kvs =
     ''Close-up portrait of a person who looks like the reference image, with a ''
     @ format_value w (dict_get kvs ''emotion'' (JString ''neutral expression''))
     @ '' expression, ''
     @ format_value w (dict_get kvs ''action'' (JString ''looking at the camera''))
     @ '', at ''
     @ format_value w (dict_get kvs ''location'' (JString ''a neutral background''))
     @ ''. ''
     @ ''The person's name is '' @ bot_name
     @ ''. Ultra-detailed, dslr quality, cinematic photo.''"

text \<open>
  The test \<open>result and isinstance(result, list) and result[0].get("image")\<close> followed by
  \<open>result[0]["image"]\<close>: \<open>None\<close> where the test fails (\<open>ValueError\<close>) or \<open>result[0]\<close> has no
  \<open>get\<close> (\<open>AttributeError\<close>). Both are raised inside the \<open>try\<close>.
\<close>

definition image_reference :: "json \<Rightarrow> json option" where
  "image_reference result =
     (if \<not> truthy result then None
      else (case result of
          JList (x # xs) \<Rightarrow>
            (case x of
               JDict kvs \<Rightarrow>
                 (let v = dict_get kvs ''image'' JNull
                  in if truthy v then Some v else None)
             | _ \<Rightarrow> None)
        | _ \<Rightarrow> None))"

text \<open>\<open>open(temp_image_path, "rb")\<close> and \<open>f.read()\<close>; only a string names a file of the store.\<close>

definition read_image :: "world \<Rightarrow> json \<Rightarrow> byte list option" where
  "read_image w v = (case v of JString p \<Rightarrow> files w p | _ \<Rightarrow> None)"

definition unique_filename :: "uuid \<Rightarrow> string" where
  "unique_filename u = uuid_str u @ ''.png''"

definition output_path :: "uuid \<Rightarrow> string" where
  "output_path u = ''static/images/'' @ unique_filename u"

text \<open>Lines 168 to 185: read, encode, draw the name, write, return the path and the text.\<close>

definition save_image :: "world \<Rightarrow> json \<Rightarrow> ((string \<times> string) \<times> world) option" where
  "save_image w temp_image_path =
     (case read_image w temp_image_path of
        None \<Rightarrow> None
      | Some image_bytes \<Rightarrow>
          (let base64_encoded_image = b64encode image_bytes;
               u = uuid4 w (uuid4_calls w);
               w' = w\<lparr>files := (files w)(output_path u \<mapsto> image_bytes),
                       uuid4_calls := Suc (uuid4_calls w)\<rparr>
           in Some ((''/static/images/'' @ unique_filename u, base64_encoded_image), w')))"

definition selfie_request :: "world \<Rightarrow> string \<Rightarrow> string \<Rightarrow> (string \<times> json) list \<Rightarrow> predict_request" where
  "selfie_request w bot_name base_image_path kvs =
     \<lparr>images = [base_image_path],
      prompt = prompt_text w bot_name kvs,
      negative_prompt = ''nsfw, low quality, deformed, ugly'',
      api_name = ''/generate_image''\<rparr>"

text \<open>The body of the \<open>try\<close>: \<open>None\<close> when anything in it raises.\<close>

definition try_generate :: "world \<Rightarrow> client \<Rightarrow> predict_request \<Rightarrow> ((string \<times> string) \<times> world) option" where
  "try_generate w c rq =
     (case c rq of
        PredictRaises \<Rightarrow> None
      | PredictReturns result \<Rightarrow>
          (case image_reference result of
             None \<Rightarrow> None
           | Some temp_image_path \<Rightarrow> save_image w temp_image_path))"

definition generate_and_save_selfie ::
  "world \<Rightarrow> string \<Rightarrow> string \<Rightarrow> json \<Rightarrow> (exn + string \<times> string) \<times> world" where
  "generate_and_save_selfie w bot_name base_image_path context =
     (case gradio_client w of
        None \<Rightarrow> (Inl (HTTPException 503 ''Image generation service is not available.''), w)
      | Some c \<Rightarrow>
          (case context of
             JDict kvs \<Rightarrow>
               (case try_generate w c (selfie_request w bot_name base_image_path kvs) of
                  None \<Rightarrow>
                    (Inl (HTTPException 500 ''Failed to generate the image internally.''), w)
                | Some (r, w') \<Rightarrow> (Inr r, w'))
           | _ \<Rightarrow> (Inl AttributeError, w)))"

section \<open>The endpoint \<open>POST /v1/generate_image\<close>\<close>

definition photos_dir :: string where
  "photos_dir = ''photos''"

definition supported_extensions :: "string list" where
  "supported_extensions = [''.jpeg'', ''.jpg'', ''.png'', ''.webp'']"

definition path_exists :: "world \<Rightarrow> string \<Rightarrow> bool" where
  "path_exists w p = (files w p \<noteq> None)"

text \<open>The \<open>for ext in supported_extensions\<close> loop with its \<open>break\<close>.\<close>

fun find_base_image :: "world \<Rightarrow> string \<Rightarrow> string list \<Rightarrow> string option" where
  "find_base_image w b [] = None"
| "find_base_image w b (ext # exts) =
     (let path = os_path_join photos_dir (b @ ext)
      in if path_exists w path then Some path else find_base_image w b exts)"

definition unknown_bot_detail :: "string \<Rightarrow> string" where
  "unknown_bot_detail b = ''Bot with id '' @ [apostrophe] @ b @ [apostrophe] @ '' is not a valid bot.''"

definition missing_image_detail :: "string \<Rightarrow> string" where
  "missing_image_detail b =
     ''Base image for bot '' @ [apostrophe] @ b @ [apostrophe] @ '' not found in the ''
     @ [apostrophe] @ photos_dir @ [apostrophe]
     @ '' folder. Please ensure the image file exists and has a matching name (e.g., delhi_mentor_male.jpeg).''"

text \<open>
  Building \<open>ImageGenerationResponse\<close> validates \<open>emotion_context: Dict[str, str]\<close>: every
  value has to pass as a string.
\<close>

definition validate_str :: "world \<Rightarrow> json \<Rightarrow> string option" where
  "validate_str w v = (case v of JString s \<Rightarrow> Some s | _ \<Rightarrow> coerce_str w v)"

definition validate_context :: "world \<Rightarrow> json \<Rightarrow> (string \<times> string) list option" where
  "validate_context w context =
     (case context of
        JDict kvs \<Rightarrow> those (map (\<lambda>(k, v). map_option (Pair k) (validate_str w v)) kvs)
      | _ \<Rightarrow> None)"

text \<open>Lines 231 to 240: the URL and the response object.\<close>

definition build_response ::
  "world \<Rightarrow> ImageGenerationRequest \<Rightarrow> http_request \<Rightarrow> json \<Rightarrow> string \<times> string
     \<Rightarrow> exn + ImageGenerationResponse" where
  "build_response w request http context r =
     (let image_path = fst r;
          full_image_url = rstrip_slash (base_url http) @ image_path
      in case validate_context w context of
           None \<Rightarrow> Inl ValidationError
         | Some ec \<Rightarrow>
             Inr \<lparr>resp_bot_id = bot_id request,
                  image_url = full_image_url,
                  image_base64 = snd r,
                  status = ''success'',
                  emotion_context = ec\<rparr>)"

text \<open>Lines 229 to 240: the image is generated and saved, then the response is built.\<close>

definition generate_and_respond ::
  "world \<Rightarrow> ImageGenerationRequest \<Rightarrow> http_request \<Rightarrow> string \<Rightarrow> string \<Rightarrow> json
     \<Rightarrow> (exn + ImageGenerationResponse) \<times> world" where
  "generate_and_respond w request http bot_name base_image_path context =
     (case generate_and_save_selfie w bot_name base_image_path context of
        (Inl e, w') \<Rightarrow> (Inl e, w')
      | (Inr r, w') \<Rightarrow> (build_response w' request http context r, w'))"

definition generate_image ::
  "world \<Rightarrow> ImageGenerationRequest \<Rightarrow> http_request \<Rightarrow> (exn + ImageGenerationResponse) \<times> world" where
  "generate_image w request http =
     (if bot_id request \<notin> VALID_BOT_IDS w then
        (Inl (HTTPException 404 (unknown_bot_detail (bot_id request))), w)
      else
        (case find_base_image w (bot_id request) supported_extensions of
           None \<Rightarrow> (Inl (HTTPException 404 (missing_image_detail (bot_id request))), w)
         | Some base_image_path \<Rightarrow>
             (if base_image_path = [] then
                (Inl (HTTPException 404 (missing_image_detail (bot_id request))), w)
              else
                (let bot_name = title (replace_underscore (bot_id request));
                     bot_response_text = get_bot_response_for_context w request bot_name;
                     context = extract_context w bot_response_text
                 in generate_and_respond w request http bot_name base_image_path context))))"

text \<open>
  What the client sees. \<open>http_exception_handler\<close> turns an \<open>HTTPException\<close> into a JSON body
  with the keys \<open>status\<close> and \<open>message\<close>; any other exception becomes the framework's bare
  500; a returned model is sent with status 200.
\<close>

datatype http_response =
    JSONResponse nat "(string \<times> string) list"
  | ModelResponse ImageGenerationResponse
  | ServerError

definition http_exception_handler :: "nat \<Rightarrow> string \<Rightarrow> http_response" where
  "http_exception_handler code detail =
     JSONResponse code [(''status'', ''error''), (''message'', detail)]"

fun status_code :: "http_response \<Rightarrow> nat" where
  "status_code (JSONResponse code content) = code"
| "status_code (ModelResponse r) = 200"
| "status_code ServerError = 500"

definition post_generate_image ::
  "world \<Rightarrow> ImageGenerationRequest \<Rightarrow> http_request \<Rightarrow> http_response \<times> world" where
  "post_generate_image w request http =
     (case generate_image w request http of
        (Inl (HTTPException code detail), w') \<Rightarrow> (http_exception_handler code detail, w')
      | (Inl e, w') \<Rightarrow> (ServerError, w')
      | (Inr r, w') \<Rightarrow> (ModelResponse r, w'))"

section \<open>Handlers on the event loop\<close>

text \<open>
  \<open>generate_image\<close> is a coroutine of one event loop (\<open>uvicorn.run(app)\<close>, one process). It
  gives up control only where it awaits something that is not ready, and the one such
  place is \<open>await asyncio.to_thread(self.gradio_client.predict, ...)\<close> (line 158): the two
  completion calls are synchronous. A handler therefore runs in two uninterrupted parts,
  from its start to the submission of \<open>predict\<close> and from the result of \<open>predict\<close> to its end;
  between the two, other handlers run.

  \<open>pending\<close> holds what the suspended handler keeps in its local variables.
\<close>

record pending =
  pd_request :: ImageGenerationRequest
  pd_http :: http_request
  pd_context :: json
  pd_client :: client
  pd_predict :: predict_request

text \<open>Lines 206 to 158: the handler until \<open>predict\<close> is submitted, or until it raises.\<close>

definition start_request :: "world \<Rightarrow> ImageGenerationRequest \<Rightarrow> http_request \<Rightarrow> exn + pending" where
  "start_request w request http =
     (if bot_id request \<notin> VALID_BOT_IDS w then
        Inl (HTTPException 404 (unknown_bot_detail (bot_id request)))
      else
        (case find_base_image w (bot_id request) supported_extensions of
           None \<Rightarrow> Inl (HTTPException 404 (missing_image_detail (bot_id request)))
         | Some base_image_path \<Rightarrow>
             (if base_image_path = [] then
                Inl (HTTPException 404 (missing_image_detail (bot_id request)))
              else
                (let bot_name = title (replace_underscore (bot_id request));
                     bot_response_text = get_bot_response_for_context w request bot_name;
                     context = extract_context w bot_response_text
                 in case gradio_client w of
                      None \<Rightarrow>
                        Inl (HTTPException 503 ''Image generation service is not available.'')
                    | Some c \<Rightarrow>
                        (case context of
                           JDict kvs \<Rightarrow>
                             Inr \<lparr>pd_request = request,
                                  pd_http = http,
                                  pd_context = context,
                                  pd_client = c,
                                  pd_predict = selfie_request w bot_name base_image_path kvs\<rparr>
                         | _ \<Rightarrow> Inl AttributeError)))))"

text \<open>
  Lines 158 to 240, in the world as it is when the handler is resumed: the result of
  \<open>predict\<close> is checked, the image read, encoded and saved, and the response built.
\<close>

definition finish_request :: "world \<Rightarrow> pending \<Rightarrow> (exn + ImageGenerationResponse) \<times> world" where
  "finish_request w pd =
     (case try_generate w (pd_client pd) (pd_predict pd) of
        None \<Rightarrow> (Inl (HTTPException 500 ''Failed to generate the image internally.''), w)
      | Some (r, w') \<Rightarrow>
          (build_response w' (pd_request pd) (pd_http pd) (pd_context pd) r, w'))"

text \<open>
  What \<open>generate_and_save_selfie\<close> hands back to the resumed handler, \<open>image_path\<close> and
  \<open>image_base64\<close> of line 229; nothing when it raises.
\<close>

definition returned :: "world \<Rightarrow> pending \<Rightarrow> (string \<times> string) list" where
  "returned w pd =
     (case try_generate w (pd_client pd) (pd_predict pd) of
        None \<Rightarrow> []
      | Some (r, w') \<Rightarrow> [r])"

text \<open>
  The event loop. \<open>Arrive\<close>: a request comes in and its handler runs its first part.
  \<open>Resume k\<close>: the \<open>k\<close>-th of the suspended handlers gets its result and runs to its end; a
  \<open>k\<close> that names no suspended handler is no event. The server keeps the world, the
  suspended handlers, the pairs returned by \<open>generate_and_save_selfie\<close> and the answers
  sent, both in the order of completion.
\<close>

datatype event =
    Arrive ImageGenerationRequest http_request
  | Resume nat

record server =
  sv_world :: world
  sv_waiting :: "pending list"
  sv_saved :: "(string \<times> string) list"
  sv_answers :: "(exn + ImageGenerationResponse) list"

fun step :: "server \<Rightarrow> event \<Rightarrow> server" where
  "step sv (Arrive request http) =
     (case start_request (sv_world sv) request http of
        Inl e \<Rightarrow> sv\<lparr>sv_answers := sv_answers sv @ [Inl e]\<rparr>
      | Inr pd \<Rightarrow> sv\<lparr>sv_waiting := sv_waiting sv @ [pd]\<rparr>)"
| "step sv (Resume k) =
     (if k < length (sv_waiting sv) then
        (let pd = sv_waiting sv ! k;
             (answer, w') = finish_request (sv_world sv) pd
         in \<lparr>sv_world = w',
             sv_waiting = take k (sv_waiting sv) @ drop (Suc k) (sv_waiting sv),
             sv_saved = sv_saved sv @ returned (sv_world sv) pd,
             sv_answers = sv_answers sv @ [answer]\<rparr>)
      else sv)"

definition idle :: "world \<Rightarrow> server" where
  "idle w = \<lparr>sv_world = w, sv_waiting = [], sv_saved = [], sv_answers = []\<rparr>"

definition run :: "world \<Rightarrow> event list \<Rightarrow> server" where
  "run w es = foldl step (idle w) es"

section \<open>The path component of a URL\<close>

text \<open>
  An absolute URL reads \<open>scheme://authority path ?query #fragment\<close> (RFC 3986): the
  authority ends at the first \<open>/\<close>, \<open>?\<close> or \<open>#\<close> after the two slashes, the path at
  the first \<open>?\<close> or \<open>#\<close>.
\<close>

definition url_path :: "string \<Rightarrow> string" where
  "url_path u =
     (let after_scheme = drop 3 (dropWhile (\<lambda>c. c \<noteq> CHR '':'') u);
          from_path = dropWhile (\<lambda>c. c \<noteq> CHR ''/'' \<and> c \<noteq> CHR ''?'' \<and> c \<noteq> CHR ''#'') after_scheme
      in takeWhile (\<lambda>c. c \<noteq> CHR ''?'' \<and> c \<noteq> CHR ''#'') from_path)"

text \<open>
  The scheme is what stands before the first colon: a letter followed by letters, digits,
  \<open>+\<close>, \<open>-\<close> and \<open>.\<close>; the authority is what stands between the two slashes and the path.
  A URL is absolute when it has a scheme, the two slashes and a host.
\<close>

definition url_scheme :: "string \<Rightarrow> string" where
  "url_scheme u = takeWhile (\<lambda>c. c \<noteq> CHR '':'') u"

definition url_authority :: "string \<Rightarrow> string" where
  "url_authority u =
     takeWhile (\<lambda>c. c \<noteq> CHR ''/'' \<and> c \<noteq> CHR ''?'' \<and> c \<noteq> CHR ''#'')
       (drop 3 (dropWhile (\<lambda>c. c \<noteq> CHR '':'') u))"

definition scheme_char :: "char \<Rightarrow> bool" where
  "scheme_char c =
     (is_lower c \<or> is_upper c \<or> ((48::nat) \<le> of_char c \<and> of_char c \<le> (57::nat))
      \<or> c = CHR ''+'' \<or> c = CHR ''-'' \<or> c = CHR ''.'')"

definition is_scheme :: "string \<Rightarrow> bool" where
  "is_scheme s = (s \<noteq> [] \<and> (is_lower (hd s) \<or> is_upper (hd s)) \<and> list_all scheme_char s)"

definition is_absolute_url :: "string \<Rightarrow> bool" where
  "is_absolute_url u =
     (is_scheme (url_scheme u)
      \<and> take 3 (dropWhile (\<lambda>c. c \<noteq> CHR '':'') u) = ''://''
      \<and> url_authority u \<noteq> [])"

section \<open>A concrete deployment\<close>

text \<open>
  One persona with a PNG base image, an image service that answers with one gallery entry,
  a completion service that reacts in prose and describes the scene with a single key,
  and a server reached at its root path.
\<close>

definition example_client :: client where
  "example_client rq = PredictReturns (JList [JDict [(''image'', JString ''/tmp/gradio/image.webp'')]])"

definition example_scene :: string where
  \<open>example_scene = ''{"emotion": "delighted"}''\<close>

definition example_completion :: "completion_request \<Rightarrow> completion_outcome" where
  "example_completion rq =
     (if response_format rq = None then CompletionContent (Some ''What wonderful news!'')
      else CompletionContent (Some example_scene))"

definition example_json_loads :: "string \<Rightarrow> json option" where
  "example_json_loads s =
     (if s = example_scene then Some (JDict [(''emotion'', JString ''delighted'')]) else None)"

definition example_uuid4 :: "nat \<Rightarrow> uuid" where
  "example_uuid4 n = 0x123e4567e89b42d3a456426614174000 + of_nat n"

definition example_world :: world where
  "example_world =
     \<lparr>VALID_BOT_IDS = {''delhi_mentor_male''},
      gradio_client = Some example_client,
      completion = example_completion,
      json_loads = example_json_loads,
      str_of = (\<lambda>v. ''None''),
      coerce_str = (\<lambda>v. None),
      files = [''photos/delhi_mentor_male.png'' \<mapsto> [137, 80, 78, 71],
               ''/tmp/gradio/image.webp'' \<mapsto> [82, 73, 70, 70, 255]],
      uuid4 = example_uuid4,
      uuid4_calls = 0\<rparr>"

definition example_request :: ImageGenerationRequest where
  "example_request =
     \<lparr>bot_id = ''delhi_mentor_male'',
      message = ''I passed my exam'',
      email = ''user@example.com'',
      previous_conversation = Some [],
      username = Some ''User''\<rparr>"

definition example_http :: http_request where
  "example_http = \<lparr>base_url = ''http://testserver/''\<rparr>"

text \<open>A request for a persona that is not registered, and the same server with no client.\<close>

definition unknown_request :: ImageGenerationRequest where
  "unknown_request = example_request\<lparr>bot_id := ''nobody''\<rparr>"

definition unset_world :: world where
  "unset_world = initialize_gradio_client example_world None"

text \<open>The same server behind a proxy that forwards the prefix \<open>/api\<close> to it.\<close>

definition proxied_http :: http_request where
  "proxied_http = \<lparr>base_url = ''http://testserver/api/''\<rparr>"

text \<open>A completion service that is down.\<close>

definition offline_world :: world where
  "offline_world = example_world\<lparr>completion := (\<lambda>rq. CompletionRaises)\<rparr>"

text \<open>A completion service that answers the scene call with prose instead of JSON.\<close>

definition garbled_world :: world where
  "garbled_world =
     example_world\<lparr>completion := (\<lambda>rq. CompletionContent (Some ''Sure, here is the scene:''))\<rparr>"

text \<open>The persona is registered but its photo was never uploaded.\<close>

definition imageless_world :: world where
  "imageless_world = example_world\<lparr>files := Map.empty\<rparr>"

text \<open>The example server after it has answered the example request once.\<close>

definition served_world :: world where
  "served_world =
     example_world\<lparr>files := (files example_world)
                      (''static/images/123e4567-e89b-42d3-a456-426614174000.png''
                         \<mapsto> [82, 73, 70, 70, 255]),
                   uuid4_calls := Suc 0\<rparr>"

text \<open>
  A completion service that describes the scene with a number where a string is asked
  for; the response model rejects a number as a string.
\<close>

definition numeric_scene :: string where
  \<open>numeric_scene = ''{"emotion": 5}''\<close>

definition numeric_world :: world where
  "numeric_world =
     example_world
       \<lparr>completion :=
          (\<lambda>rq. if response_format rq = None then CompletionContent (Some ''What wonderful news!'')
                else CompletionContent (Some numeric_scene)),
        json_loads :=
          (\<lambda>s. if s = numeric_scene then Some (JDict [(''emotion'', JInt 5)]) else None),
        str_of := (\<lambda>v. ''5'')\<rparr>"

text \<open>
  A registry (it is imported from \<open>bot_prompts\<close>) with an identifier that is an absolute
  path, and a photo lying beside that path, outside \<open>photos\<close>.
\<close>

definition absolute_world :: world where
  "absolute_world =
     example_world
       \<lparr>VALID_BOT_IDS := {''/tmp/absbot/bot''},
        files := [''/tmp/absbot/bot.webp'' \<mapsto> [82, 73, 70, 70, 0],
                  ''/tmp/gradio/image.webp'' \<mapsto> [82, 73, 70, 70, 255]]\<rparr>"

definition absolute_request :: ImageGenerationRequest where
  "absolute_request = example_request\<lparr>bot_id := ''/tmp/absbot/bot''\<rparr>"

text \<open>
  Two personas, and an image service whose answer depends on the base image it is given.
\<close>

definition twin_client :: client where
  "twin_client rq =
     (if images rq = [''photos/delhi_mentor_male.png'']
      then PredictReturns (JList [JDict [(''image'', JString ''/tmp/gradio/image.webp'')]])
      else PredictReturns (JList [JDict [(''image'', JString ''/tmp/gradio/other.webp'')]]))"

definition twin_world :: world where
  "twin_world =
     example_world
       \<lparr>VALID_BOT_IDS := {''delhi_mentor_male'', ''goa_friend_female''},
        gradio_client := Some twin_client,
        files := [''photos/delhi_mentor_male.png'' \<mapsto> [137, 80, 78, 71],
                  ''photos/goa_friend_female.jpg'' \<mapsto> [255, 216, 255],
                  ''/tmp/gradio/image.webp'' \<mapsto> [82, 73, 70, 70, 255],
                  ''/tmp/gradio/other.webp'' \<mapsto> [82, 73, 70, 70, 0]]\<rparr>"

definition twin_request :: ImageGenerationRequest where
  "twin_request = example_request\<lparr>bot_id := ''goa_friend_female''\<rparr>"

text \<open>Both requests arrive before either is resumed; the second is resumed first.\<close>

definition overlapping :: "event list" where
  "overlapping =
     [Arrive example_request example_http, Arrive twin_request example_http, Resume 1, Resume 0]"

text \<open>The same server when \<open>uuid.uuid4()\<close> hands out one value twice.\<close>

definition colliding_world :: world where
  "colliding_world = twin_world\<lparr>uuid4 := (\<lambda>n. example_uuid4 0)\<rparr>"

section \<open>Request validation\<close>

lemma os_path_join_nonempty: "b \<noteq> [] \<Longrightarrow> os_path_join a b \<noteq> []"
  by (simp add: os_path_join_def)

lemma find_base_image_nonempty:
  "find_base_image w b exts = Some p \<Longrightarrow> [] \<notin> set exts \<Longrightarrow> p \<noteq> []"
  by (induction exts) (auto simp: Let_def os_path_join_nonempty split: if_splits)

lemma find_base_image_supported_nonempty:
  "find_base_image w b supported_extensions = Some p \<Longrightarrow> p \<noteq> []"
  by (erule find_base_image_nonempty) (simp add: supported_extensions_def)

lemma find_base_image_find:
  "find_base_image w b exts =
     List.find (path_exists w) (map (\<lambda>ext. os_path_join photos_dir (b @ ext)) exts)"
  by (induction exts) (simp_all add: Let_def)

lemma generate_image_unknown_bot:
  "bot_id request \<notin> VALID_BOT_IDS w \<Longrightarrow>
     generate_image w request http =
       (Inl (HTTPException 404 (unknown_bot_detail (bot_id request))), w)"
  by (simp add: generate_image_def)

lemma generate_image_missing_image:
  "bot_id request \<in> VALID_BOT_IDS w \<Longrightarrow>
   find_base_image w (bot_id request) supported_extensions = None \<Longrightarrow>
     generate_image w request http =
       (Inl (HTTPException 404 (missing_image_detail (bot_id request))), w)"
  by (simp add: generate_image_def)

lemma generate_image_found:
  "bot_id request \<in> VALID_BOT_IDS w \<Longrightarrow>
   find_base_image w (bot_id request) supported_extensions = Some p \<Longrightarrow>
     generate_image w request http =
       generate_and_respond w request http (title (replace_underscore (bot_id request))) p
         (extract_context w
            (get_bot_response_for_context w request (title (replace_underscore (bot_id request)))))"
  by (simp add: generate_image_def Let_def find_base_image_supported_nonempty)

lemma generate_and_respond_unset:
  "gradio_client w = None \<Longrightarrow>
     generate_and_respond w request http n p c =
       (Inl (HTTPException 503 ''Image generation service is not available.''), w)"
  by (simp add: generate_and_respond_def generate_and_save_selfie_def)

text \<open>Facts about the concrete deployment, used to run the handler on it.\<close>

lemma example_bot_known: "bot_id example_request \<in> VALID_BOT_IDS example_world"
  by (simp add: example_request_def example_world_def)

lemma example_base_image:
  "find_base_image example_world ''delhi_mentor_male'' supported_extensions
     = Some ''photos/delhi_mentor_male.png''"
  by (simp add: example_world_def supported_extensions_def photos_dir_def os_path_join_def
      path_exists_def)

lemma unset_world_simps:
  "gradio_client unset_world = None"
  "VALID_BOT_IDS unset_world = VALID_BOT_IDS example_world"
  "files unset_world = files example_world"
  by (simp_all add: unset_world_def initialize_gradio_client_def)

lemma unset_base_image:
  "find_base_image unset_world ''delhi_mentor_male'' supported_extensions
     = Some ''photos/delhi_mentor_male.png''"
  by (simp add: unset_world_simps example_world_def supported_extensions_def photos_dir_def
      os_path_join_def path_exists_def)

text \<open>
  C6. A request whose bot identifier is not in the registry is answered with status 404
  and the JSON error body whose message is \<open>Bot with id '<bot_id>' is not a valid bot.\<close>;
  the identifier occurs in that message. Nothing in the world changes.
\<close>

theorem unknown_bot_404:
  assumes "bot_id request \<notin> VALID_BOT_IDS w"
  shows "post_generate_image w request http =
           (JSONResponse 404
              [(''status'', ''error''),
               (''message'',
                ''Bot with id '' @ [apostrophe] @ bot_id request @ [apostrophe]
                  @ '' is not a valid bot.'')], w)
         \<and> sublist (bot_id request)
             (''Bot with id '' @ [apostrophe] @ bot_id request @ [apostrophe]
                @ '' is not a valid bot.'')"
proof
  show "post_generate_image w request http =
           (JSONResponse 404
              [(''status'', ''error''),
               (''message'',
                ''Bot with id '' @ [apostrophe] @ bot_id request @ [apostrophe]
                  @ '' is not a valid bot.'')], w)"
    using assms
    by (simp add: post_generate_image_def generate_image_unknown_bot
        http_exception_handler_def unknown_bot_detail_def)
next
  have "''Bot with id '' @ [apostrophe] @ bot_id request @ [apostrophe] @ '' is not a valid bot.''
        = (''Bot with id '' @ [apostrophe]) @ bot_id request @ ([apostrophe] @ '' is not a valid bot.'')"
    by simp
  then show "sublist (bot_id request)
             (''Bot with id '' @ [apostrophe] @ bot_id request @ [apostrophe]
                @ '' is not a valid bot.'')"
    unfolding sublist_def by blast
qed

theorem unknown_bot_404_witness:
  "bot_id unknown_request \<notin> VALID_BOT_IDS example_world
   \<and> post_generate_image example_world unknown_request example_http =
       (JSONResponse 404
          [(''status'', ''error''), (''message'', ''Bot with id 'nobody' is not a valid bot.'')],
        example_world)"
proof -
  have h: "bot_id unknown_request \<notin> VALID_BOT_IDS example_world"
    by (simp add: unknown_request_def example_request_def example_world_def)
  have b: "bot_id unknown_request = ''nobody''"
    by (simp add: unknown_request_def)
  show ?thesis
    using h unknown_bot_404 [OF h, of example_http] by (simp add: b apostrophe_def)
qed

text \<open>
  C1, as the code has it. With the client unset, a request for a registered persona whose
  base image exists is answered with status 503 and the message
  \<open>Image generation service is not available.\<close>, whatever its message and whatever the
  completion service does. The registry and the base image are checked first: a request
  that fails either check is answered with 404, client or no client.
\<close>

theorem unset_client_503_after_validation:
  assumes "gradio_client w = None"
  shows "(bot_id request \<in> VALID_BOT_IDS w
            \<and> find_base_image w (bot_id request) supported_extensions \<noteq> None
          \<longrightarrow> post_generate_image w request http =
                (JSONResponse 503
                   [(''status'', ''error''),
                    (''message'', ''Image generation service is not available.'')], w))
       \<and> (bot_id request \<notin> VALID_BOT_IDS w
            \<or> find_base_image w (bot_id request) supported_extensions = None
          \<longrightarrow> status_code (fst (post_generate_image w request http)) = 404
              \<and> snd (post_generate_image w request http) = w)"
proof (intro conjI impI)
  assume "bot_id request \<in> VALID_BOT_IDS w
            \<and> find_base_image w (bot_id request) supported_extensions \<noteq> None"
  then obtain p where "bot_id request \<in> VALID_BOT_IDS w"
    and "find_base_image w (bot_id request) supported_extensions = Some p"
    by auto
  then show "post_generate_image w request http =
                (JSONResponse 503
                   [(''status'', ''error''),
                    (''message'', ''Image generation service is not available.'')], w)"
    using assms
    by (simp add: post_generate_image_def generate_image_found generate_and_respond_unset
        http_exception_handler_def)
next
  assume a: "bot_id request \<notin> VALID_BOT_IDS w
            \<or> find_base_image w (bot_id request) supported_extensions = None"
  then show "status_code (fst (post_generate_image w request http)) = 404"
    by (cases "bot_id request \<in> VALID_BOT_IDS w")
       (auto simp: post_generate_image_def generate_image_unknown_bot
          generate_image_missing_image http_exception_handler_def)
  from a show "snd (post_generate_image w request http) = w"
    by (cases "bot_id request \<in> VALID_BOT_IDS w")
       (auto simp: post_generate_image_def generate_image_unknown_bot
          generate_image_missing_image http_exception_handler_def)
qed

theorem unset_client_503_after_validation_witness:
  "gradio_client unset_world = None
   \<and> bot_id example_request \<in> VALID_BOT_IDS unset_world
   \<and> find_base_image unset_world (bot_id example_request) supported_extensions \<noteq> None
   \<and> post_generate_image unset_world example_request example_http =
       (JSONResponse 503
          [(''status'', ''error''), (''message'', ''Image generation service is not available.'')],
        unset_world)
   \<and> bot_id unknown_request \<notin> VALID_BOT_IDS unset_world
   \<and> status_code (fst (post_generate_image unset_world unknown_request example_http)) = 404"
proof -
  have h: "gradio_client unset_world = None"
    by (simp add: unset_world_simps)
  have b: "bot_id example_request = ''delhi_mentor_male''"
    by (simp add: example_request_def)
  have k: "bot_id example_request \<in> VALID_BOT_IDS unset_world"
    by (simp add: unset_world_simps example_bot_known)
  have f: "find_base_image unset_world (bot_id example_request) supported_extensions \<noteq> None"
    by (simp add: b unset_base_image)
  have u: "bot_id unknown_request \<notin> VALID_BOT_IDS unset_world"
    by (simp add: unset_world_simps unknown_request_def example_request_def example_world_def)
  show ?thesis
    using h k f u
      unset_client_503_after_validation [OF h, of example_request example_http]
      unset_client_503_after_validation [OF h, of unknown_request example_http]
    by simp
qed

text \<open>
  The claim as the specification words it, every request answered with 503 once the
  client is unset, fails on a request for an unregistered persona: the answer is 404.
\<close>

theorem unset_client_every_request_503_counterexample:
  "gradio_client (initialize_gradio_client example_world None) = None
   \<and> status_code
       (fst (post_generate_image (initialize_gradio_client example_world None)
               unknown_request example_http)) = 404
   \<and> status_code
       (fst (post_generate_image (initialize_gradio_client example_world None)
               unknown_request example_http)) \<noteq> 503"
  by (simp add: initialize_gradio_client_def post_generate_image_def generate_image_def
      unknown_request_def example_request_def example_world_def http_exception_handler_def)

section \<open>Scene context and reaction\<close>

lemma extract_context_fallback:
  assumes "completion w (scene_request t) = CompletionRaises
         \<or> completion w (scene_request t) = CompletionContent None
         \<or> (\<exists>c. completion w (scene_request t) = CompletionContent (Some c) \<and> json_loads w c = None)"
  shows "extract_context w t = default_context"
  using assms by (auto simp: extract_context_def)

lemma extract_context_parsed:
  "completion w (scene_request t) = CompletionContent (Some c) \<Longrightarrow> json_loads w c = Some v \<Longrightarrow>
     extract_context w t = v"
  by (simp add: extract_context_def)

lemma those_keys:
  "those (map (\<lambda>(k, v). map_option (Pair k) (g v)) kvs) = Some ec \<Longrightarrow> map fst ec = map fst kvs"
proof (induction kvs arbitrary: ec)
  case Nil
  then show ?case by simp
next
  case (Cons kv kvs)
  obtain k v where kv: "kv = (k, v)" by (cases kv)
  from Cons.prems obtain s ec' where "g v = Some s"
    and t: "those (map (\<lambda>(k, v). map_option (Pair k) (g v)) kvs) = Some ec'"
    and ec: "ec = (k, s) # ec'"
    by (auto simp: kv split: option.splits)
  from Cons.IH [OF t] ec show ?case by (simp add: kv)
qed

lemma validate_context_keys:
  "validate_context w (JDict kvs) = Some ec \<Longrightarrow> map fst ec = map fst kvs"
  unfolding validate_context_def by (simp add: those_keys)

lemma validate_default_context:
  "validate_context w default_context =
     Some [(''emotion'', ''neutral''), (''location'', ''a room''), (''action'', ''looking at the camera'')]"
  by (simp add: validate_context_def default_context_def validate_str_def)

lemma prompt_text_default:
  "prompt_text w n [(''emotion'', JString ''neutral''), (''location'', JString ''a room''),
                    (''action'', JString ''looking at the camera'')] =
     ''Close-up portrait of a person who looks like the reference image, with a neutral expression, looking at the camera, at a room. The person's name is ''
     @ n @ ''. Ultra-detailed, dslr quality, cinematic photo.''"
  by (simp add: prompt_text_def dict_get_def format_value_def)

lemma save_image_keeps_oracles:
  "save_image w v = Some (r, w') \<Longrightarrow>
     coerce_str w' = coerce_str w \<and> str_of w' = str_of w \<and> VALID_BOT_IDS w' = VALID_BOT_IDS w
     \<and> gradio_client w' = gradio_client w \<and> completion w' = completion w
     \<and> json_loads w' = json_loads w \<and> uuid4 w' = uuid4 w"
  by (cases "read_image w v") (auto simp: save_image_def Let_def)

lemma try_generate_keeps_oracles:
  assumes "try_generate w c rq = Some (r, w')"
  shows "coerce_str w' = coerce_str w \<and> str_of w' = str_of w \<and> VALID_BOT_IDS w' = VALID_BOT_IDS w
     \<and> gradio_client w' = gradio_client w \<and> completion w' = completion w
     \<and> json_loads w' = json_loads w \<and> uuid4 w' = uuid4 w"
proof -
  from assms obtain v where "save_image w v = Some (r, w')"
    by (auto simp: try_generate_def split: predict_outcome.splits option.splits)
  then show ?thesis by (rule save_image_keeps_oracles)
qed

lemma validate_str_cong:
  "coerce_str w' = coerce_str w \<Longrightarrow> validate_str w' = validate_str w"
  by (rule ext) (simp add: validate_str_def split: json.splits)

lemma validate_context_cong:
  "coerce_str w' = coerce_str w \<Longrightarrow> validate_context w' c = validate_context w c"
  by (drule validate_str_cong) (simp add: validate_context_def split: json.splits)

lemma generate_and_respond_dict:
  assumes "gradio_client w = Some cl"
  shows "generate_and_respond w request http n p (JDict kvs) =
     (case try_generate w cl (selfie_request w n p kvs) of
        None \<Rightarrow> (Inl (HTTPException 500 ''Failed to generate the image internally.''), w)
      | Some (r, w') \<Rightarrow>
          (case validate_context w (JDict kvs) of
             None \<Rightarrow> (Inl ValidationError, w')
           | Some ec \<Rightarrow>
               (Inr \<lparr>resp_bot_id = bot_id request,
                     image_url = rstrip_slash (base_url http) @ fst r,
                     image_base64 = snd r,
                     status = ''success'',
                     emotion_context = ec\<rparr>, w')))"
proof (cases "try_generate w cl (selfie_request w n p kvs)")
  case None
  then show ?thesis using assms
    by (simp add: generate_and_respond_def generate_and_save_selfie_def)
next
  case (Some a)
  obtain r w' where a: "a = (r, w')" by (cases a)
  have t: "try_generate w cl (selfie_request w n p kvs) = Some (r, w')"
    using Some a by simp
  have v: "validate_context w' (JDict kvs) = validate_context w (JDict kvs)"
    using try_generate_keeps_oracles [OF t] by (intro validate_context_cong) simp
  have g: "generate_and_save_selfie w n p (JDict kvs) = (Inr r, w')"
    using assms t by (simp add: generate_and_save_selfie_def)
  show ?thesis
    by (cases "validate_context w (JDict kvs)")
       (simp_all add: generate_and_respond_def g build_response_def v t)
qed

lemma selfie_request_default:
  "selfie_request w n p
     [(''emotion'', JString ''neutral''), (''location'', JString ''a room''),
      (''action'', JString ''looking at the camera'')] =
   \<lparr>images = [p],
    prompt = ''Close-up portrait of a person who looks like the reference image, with a neutral expression, looking at the camera, at a room. The person's name is ''
       @ n @ ''. Ultra-detailed, dslr quality, cinematic photo.'',
    negative_prompt = ''nsfw, low quality, deformed, ugly'',
    api_name = ''/generate_image''\<rparr>"
  by (simp only: selfie_request_def prompt_text_default)

text \<open>Running the image step on the concrete deployment.\<close>

lemma hex_digits_numeral:
  "hex_digits (numeral k) n = hex_digits (pred_numeral k) (n div 16) @ [hex_digit (n mod 16)]"
proof -
  have "hex_digits (numeral k) n = hex_digits (Suc (pred_numeral k)) n"
    by (simp only: numeral_eq_Suc)
  then show ?thesis by (simp only: hex_digits.simps)
qed

lemma example_bot_name: "title (replace_underscore ''delhi_mentor_male'') = ''Delhi Mentor Male''"
  by code_simp

lemma example_uuid_str:
  "uuid_str (example_uuid4 0) = ''123e4567-e89b-42d3-a456-426614174000''"
  by (simp add: example_uuid4_def uuid_str_def hex32_def hex_digits_numeral hex_digit_def)

lemma example_b64: "b64encode [82, 73, 70, 70, 255] = ''UklGRv8=''"
  by (simp add: b64_char_def b64_alphabet_def)

lemma example_image_reference:
  "image_reference (JList [JDict [(''image'', JString ''/tmp/gradio/image.webp'')]])
     = Some (JString ''/tmp/gradio/image.webp'')"
  by (simp add: image_reference_def dict_get_def)

lemma example_try_generate:
  assumes "files w ''/tmp/gradio/image.webp'' = Some [82, 73, 70, 70, 255]"
    and "uuid4 w = example_uuid4" and "uuid4_calls w = 0"
  shows "try_generate w example_client rq =
           Some ((''/static/images/123e4567-e89b-42d3-a456-426614174000.png'', ''UklGRv8=''),
                 w\<lparr>files := (files w)(''static/images/123e4567-e89b-42d3-a456-426614174000.png''
                                     \<mapsto> [82, 73, 70, 70, 255]),
                   uuid4_calls := Suc 0\<rparr>)"
  using assms
  by (simp add: try_generate_def example_client_def example_image_reference save_image_def
      read_image_def example_b64 example_uuid_str unique_filename_def output_path_def
      del: b64encode.simps)

lemma example_generate_and_respond:
  assumes "gradio_client w = Some example_client"
    and "files w ''/tmp/gradio/image.webp'' = Some [82, 73, 70, 70, 255]"
    and "uuid4 w = example_uuid4" and "uuid4_calls w = 0"
    and "validate_context w (JDict kvs) = Some ec"
  shows "generate_and_respond w request http n p (JDict kvs) =
           (Inr \<lparr>resp_bot_id = bot_id request,
                 image_url = rstrip_slash (base_url http)
                   @ ''/static/images/123e4567-e89b-42d3-a456-426614174000.png'',
                 image_base64 = ''UklGRv8='',
                 status = ''success'',
                 emotion_context = ec\<rparr>,
            w\<lparr>files := (files w)(''static/images/123e4567-e89b-42d3-a456-426614174000.png''
                                \<mapsto> [82, 73, 70, 70, 255]),
              uuid4_calls := Suc 0\<rparr>)"
  by (simp add: generate_and_respond_dict [OF assms(1)]
      example_try_generate [OF assms(2) assms(3) assms(4)] assms(5))

lemma example_http_root: "rstrip_slash (base_url example_http) = ''http://testserver''"
  by (simp add: example_http_def rstrip_slash_def)

lemma example_request_simps:
  "bot_id example_request = ''delhi_mentor_male''"
  "message example_request = ''I passed my exam''"
  by (simp_all add: example_request_def)

lemma garbled_world_simps:
  "VALID_BOT_IDS garbled_world = {''delhi_mentor_male''}"
  "gradio_client garbled_world = Some example_client"
  "completion garbled_world rq = CompletionContent (Some ''Sure, here is the scene:'')"
  "json_loads garbled_world ''Sure, here is the scene:'' = None"
  "files garbled_world ''/tmp/gradio/image.webp'' = Some [82, 73, 70, 70, 255]"
  "uuid4 garbled_world = example_uuid4"
  "uuid4_calls garbled_world = 0"
  "find_base_image garbled_world ''delhi_mentor_male'' supported_extensions
     = Some ''photos/delhi_mentor_male.png''"
  by (simp_all add: garbled_world_def example_world_def example_json_loads_def example_scene_def
      supported_extensions_def photos_dir_def os_path_join_def path_exists_def)

lemma offline_world_simps:
  "VALID_BOT_IDS offline_world = {''delhi_mentor_male''}"
  "gradio_client offline_world = Some example_client"
  "completion offline_world rq = CompletionRaises"
  "files offline_world ''/tmp/gradio/image.webp'' = Some [82, 73, 70, 70, 255]"
  "uuid4 offline_world = example_uuid4"
  "uuid4_calls offline_world = 0"
  "find_base_image offline_world ''delhi_mentor_male'' supported_extensions
     = Some ''photos/delhi_mentor_male.png''"
  by (simp_all add: offline_world_def example_world_def
      supported_extensions_def photos_dir_def os_path_join_def path_exists_def)

lemma example_world_simps:
  "VALID_BOT_IDS example_world = {''delhi_mentor_male''}"
  "gradio_client example_world = Some example_client"
  "completion example_world (reaction_request rd n) = CompletionContent (Some ''What wonderful news!'')"
  "completion example_world (scene_request t) = CompletionContent (Some example_scene)"
  "json_loads example_world example_scene = Some (JDict [(''emotion'', JString ''delighted'')])"
  "files example_world ''/tmp/gradio/image.webp'' = Some [82, 73, 70, 70, 255]"
  "uuid4 example_world = example_uuid4"
  "uuid4_calls example_world = 0"
  by (simp_all add: example_world_def example_completion_def example_json_loads_def
      reaction_request_def scene_request_def)

lemma os_path_join_relative:
  "take 1 b \<noteq> ''/'' \<Longrightarrow> os_path_join ''photos'' b = ''photos/'' @ b"
  by (cases b) (simp_all add: os_path_join_def)

lemma os_path_join_absolute:
  "take 1 b = ''/'' \<Longrightarrow> os_path_join a b = b"
  by (cases b) (simp_all add: os_path_join_def)

lemma take1_extension:
  "ext \<in> set [''.jpeg'', ''.jpg'', ''.png'', ''.webp'']
     \<Longrightarrow> (take 1 (b @ ext) = ''/'') = (take 1 b = ''/'')"
  by (cases b) auto

lemma scan_relative:
  assumes "take 1 b \<noteq> ''/''"
  shows "map (\<lambda>ext. os_path_join ''photos'' (b @ ext)) [''.jpeg'', ''.jpg'', ''.png'', ''.webp'']
           = map (\<lambda>ext. ''photos/'' @ b @ ext) [''.jpeg'', ''.jpg'', ''.png'', ''.webp'']"
proof (rule map_cong [OF refl])
  fix ext :: string
  assume "ext \<in> set [''.jpeg'', ''.jpg'', ''.png'', ''.webp'']"
  then have "take 1 (b @ ext) \<noteq> ''/''"
    using assms by (simp only: take1_extension simp_thms)
  then show "os_path_join ''photos'' (b @ ext) = ''photos/'' @ b @ ext"
    by (rule os_path_join_relative)
qed

lemma scan_absolute:
  assumes "take 1 b = ''/''"
  shows "map (\<lambda>ext. os_path_join ''photos'' (b @ ext)) [''.jpeg'', ''.jpg'', ''.png'', ''.webp'']
           = map (\<lambda>ext. b @ ext) [''.jpeg'', ''.jpg'', ''.png'', ''.webp'']"
proof (rule map_cong [OF refl])
  fix ext :: string
  assume "ext \<in> set [''.jpeg'', ''.jpg'', ''.png'', ''.webp'']"
  then have "take 1 (b @ ext) = ''/''"
    using assms by (simp only: take1_extension)
  then show "os_path_join ''photos'' (b @ ext) = b @ ext"
    by (rule os_path_join_absolute)
qed

lemma absolute_world_simps:
  "VALID_BOT_IDS absolute_world = {''/tmp/absbot/bot''}"
  "gradio_client absolute_world = Some example_client"
  "completion absolute_world (scene_request t) = CompletionContent (Some example_scene)"
  "json_loads absolute_world example_scene = Some (JDict [(''emotion'', JString ''delighted'')])"
  "files absolute_world ''/tmp/gradio/image.webp'' = Some [82, 73, 70, 70, 255]"
  "uuid4 absolute_world = example_uuid4"
  "uuid4_calls absolute_world = 0"
  "bot_id absolute_request = ''/tmp/absbot/bot''"
  by (simp_all add: absolute_world_def absolute_request_def example_world_def
      example_completion_def example_json_loads_def scene_request_def)

text \<open>
  C7, as the code has it. For a registered bot identifier the base image is the first
  existing path among \<open>os.path.join("photos", bot_id + ext)\<close> for \<open>ext\<close> running through
  \<open>.jpeg\<close>, \<open>.jpg\<close>, \<open>.png\<close>, \<open>.webp\<close> in this order, and that path is the one the rest of the
  handler works with; if none of the four joined paths exists the answer is 404 with the
  JSON error body. For an identifier that does not begin with a slash the joined paths
  are \<open>photos/<bot_id><ext>\<close>, so the scan selects the first of these that exists and the
  answer is 404 when none of them does. For an identifier that begins with a slash the
  join discards \<open>photos\<close> and the paths scanned are \<open><bot_id><ext>\<close> themselves.
\<close>

theorem base_image_ordered_scan:
  assumes "bot_id request \<in> VALID_BOT_IDS w"
  shows "find_base_image w (bot_id request) supported_extensions =
           List.find (\<lambda>path. files w path \<noteq> None)
             (map (\<lambda>ext. os_path_join ''photos'' (bot_id request @ ext))
                [''.jpeg'', ''.jpg'', ''.png'', ''.webp''])
       \<and> (\<forall>p. find_base_image w (bot_id request) supported_extensions = Some p \<longrightarrow>
             generate_image w request http =
               generate_and_respond w request http (title (replace_underscore (bot_id request))) p
                 (extract_context w
                   (get_bot_response_for_context w request
                      (title (replace_underscore (bot_id request))))))
       \<and> ((\<forall>ext \<in> set [''.jpeg'', ''.jpg'', ''.png'', ''.webp''].
              files w (os_path_join ''photos'' (bot_id request @ ext)) = None) \<longrightarrow>
           post_generate_image w request http =
             (JSONResponse 404
                [(''status'', ''error''), (''message'', missing_image_detail (bot_id request))], w))
       \<and> (take 1 (bot_id request) \<noteq> ''/'' \<longrightarrow>
             find_base_image w (bot_id request) supported_extensions =
               List.find (\<lambda>path. files w path \<noteq> None)
                 (map (\<lambda>ext. ''photos/'' @ bot_id request @ ext)
                    [''.jpeg'', ''.jpg'', ''.png'', ''.webp''])
           \<and> ((\<forall>ext \<in> set [''.jpeg'', ''.jpg'', ''.png'', ''.webp''].
                  files w (''photos/'' @ bot_id request @ ext) = None) \<longrightarrow>
               post_generate_image w request http =
                 (JSONResponse 404
                    [(''status'', ''error''), (''message'', missing_image_detail (bot_id request))],
                  w)))
       \<and> (take 1 (bot_id request) = ''/'' \<longrightarrow>
             find_base_image w (bot_id request) supported_extensions =
               List.find (\<lambda>path. files w path \<noteq> None)
                 (map (\<lambda>ext. bot_id request @ ext) [''.jpeg'', ''.jpg'', ''.png'', ''.webp'']))"
proof -
  have pe: "path_exists w = (\<lambda>path. files w path \<noteq> None)"
    by (rule ext) (simp add: path_exists_def)
  have f: "find_base_image w (bot_id request) supported_extensions =
           List.find (\<lambda>path. files w path \<noteq> None)
             (map (\<lambda>ext. os_path_join ''photos'' (bot_id request @ ext))
                [''.jpeg'', ''.jpg'', ''.png'', ''.webp''])"
    unfolding find_base_image_find pe
    by (simp only: supported_extensions_def photos_dir_def)
  have g: "generate_image w request http =
               generate_and_respond w request http (title (replace_underscore (bot_id request))) p
                 (extract_context w
                   (get_bot_response_for_context w request
                      (title (replace_underscore (bot_id request)))))"
    if "find_base_image w (bot_id request) supported_extensions = Some p" for p
    using assms that by (rule generate_image_found)
  have n: "post_generate_image w request http =
           (JSONResponse 404
              [(''status'', ''error''), (''message'', missing_image_detail (bot_id request))], w)"
    if "find_base_image w (bot_id request) supported_extensions = None"
    using assms that
    by (simp add: post_generate_image_def generate_image_missing_image
        http_exception_handler_def)
  have n1: "post_generate_image w request http =
           (JSONResponse 404
              [(''status'', ''error''), (''message'', missing_image_detail (bot_id request))], w)"
    if a: "\<forall>ext \<in> set [''.jpeg'', ''.jpg'', ''.png'', ''.webp''].
            files w (os_path_join ''photos'' (bot_id request @ ext)) = None"
  proof (rule n)
    show "find_base_image w (bot_id request) supported_extensions = None"
      unfolding f find_None_iff using a by auto
  qed
  have r: "find_base_image w (bot_id request) supported_extensions =
               List.find (\<lambda>path. files w path \<noteq> None)
                 (map (\<lambda>ext. ''photos/'' @ bot_id request @ ext)
                    [''.jpeg'', ''.jpg'', ''.png'', ''.webp''])"
    if "take 1 (bot_id request) \<noteq> ''/''"
    unfolding f by (simp only: scan_relative [OF that])
  have n2: "post_generate_image w request http =
           (JSONResponse 404
              [(''status'', ''error''), (''message'', missing_image_detail (bot_id request))], w)"
    if t: "take 1 (bot_id request) \<noteq> ''/''"
      and a: "\<forall>ext \<in> set [''.jpeg'', ''.jpg'', ''.png'', ''.webp''].
            files w (''photos/'' @ bot_id request @ ext) = None"
  proof (rule n)
    show "find_base_image w (bot_id request) supported_extensions = None"
      unfolding r [OF t] find_None_iff using a by auto
  qed
  have ab: "find_base_image w (bot_id request) supported_extensions =
               List.find (\<lambda>path. files w path \<noteq> None)
                 (map (\<lambda>ext. bot_id request @ ext) [''.jpeg'', ''.jpg'', ''.png'', ''.webp''])"
    if "take 1 (bot_id request) = ''/''"
    unfolding f by (simp only: scan_absolute [OF that])
  show ?thesis
    using f g n1 r n2 ab by blast
qed

theorem base_image_ordered_scan_witness:
  "bot_id example_request \<in> VALID_BOT_IDS example_world
   \<and> take 1 (bot_id example_request) \<noteq> ''/''
   \<and> files example_world ''photos/delhi_mentor_male.jpeg'' = None
   \<and> files example_world ''photos/delhi_mentor_male.jpg'' = None
   \<and> files example_world ''photos/delhi_mentor_male.png'' \<noteq> None
   \<and> find_base_image example_world (bot_id example_request) supported_extensions
       = Some ''photos/delhi_mentor_male.png''
   \<and> generate_image example_world example_request example_http =
       generate_and_respond example_world example_request example_http ''Delhi Mentor Male''
         ''photos/delhi_mentor_male.png''
         (extract_context example_world
            (get_bot_response_for_context example_world example_request ''Delhi Mentor Male''))
   \<and> bot_id example_request \<in> VALID_BOT_IDS imageless_world
   \<and> files imageless_world ''photos/delhi_mentor_male.jpeg'' = None
   \<and> files imageless_world ''photos/delhi_mentor_male.jpg'' = None
   \<and> files imageless_world ''photos/delhi_mentor_male.png'' = None
   \<and> files imageless_world ''photos/delhi_mentor_male.webp'' = None
   \<and> files imageless_world (os_path_join ''photos'' ''delhi_mentor_male.jpeg'') = None
   \<and> files imageless_world (os_path_join ''photos'' ''delhi_mentor_male.jpg'') = None
   \<and> files imageless_world (os_path_join ''photos'' ''delhi_mentor_male.png'') = None
   \<and> files imageless_world (os_path_join ''photos'' ''delhi_mentor_male.webp'') = None
   \<and> status_code (fst (post_generate_image imageless_world example_request example_http)) = 404
   \<and> bot_id absolute_request \<in> VALID_BOT_IDS absolute_world
   \<and> take 1 (bot_id absolute_request) = ''/''
   \<and> files absolute_world ''/tmp/absbot/bot.jpeg'' = None
   \<and> files absolute_world ''/tmp/absbot/bot.jpg'' = None
   \<and> files absolute_world ''/tmp/absbot/bot.png'' = None
   \<and> files absolute_world ''/tmp/absbot/bot.webp'' \<noteq> None
   \<and> find_base_image absolute_world (bot_id absolute_request) supported_extensions
       = Some ''/tmp/absbot/bot.webp''"
proof -
  have k: "bot_id example_request \<in> VALID_BOT_IDS example_world"
    by (rule example_bot_known)
  have k': "bot_id example_request \<in> VALID_BOT_IDS imageless_world"
    by (simp add: imageless_world_def example_bot_known)
  have k'': "bot_id absolute_request \<in> VALID_BOT_IDS absolute_world"
    by (simp add: absolute_world_simps)
  have t: "take 1 (bot_id example_request) \<noteq> ''/''"
    by (simp add: example_request_simps)
  have t'': "take 1 (bot_id absolute_request) = ''/''"
    by (simp add: absolute_world_simps)
  have fs': "files imageless_world q = None" for q
    by (simp add: imageless_world_def)
  have n: "\<forall>ext \<in> set [''.jpeg'', ''.jpg'', ''.png'', ''.webp''].
          files imageless_world (''photos/'' @ bot_id example_request @ ext) = None"
    by (simp add: fs')
  have n0: "\<forall>ext \<in> set [''.jpeg'', ''.jpg'', ''.png'', ''.webp''].
          files imageless_world (os_path_join ''photos'' (bot_id example_request @ ext)) = None"
    by (simp add: fs')
  have fs: "files example_world ''photos/delhi_mentor_male.jpeg'' = None"
    "files example_world ''photos/delhi_mentor_male.jpg'' = None"
    "files example_world ''photos/delhi_mentor_male.png'' \<noteq> None"
    by (simp_all add: example_world_def)
  have fs'': "files absolute_world ''/tmp/absbot/bot.jpeg'' = None"
    "files absolute_world ''/tmp/absbot/bot.jpg'' = None"
    "files absolute_world ''/tmp/absbot/bot.png'' = None"
    "files absolute_world ''/tmp/absbot/bot.webp'' \<noteq> None"
    by (simp_all add: absolute_world_def)
  note inst = base_image_ordered_scan [OF k, of example_http]
  note inst' = base_image_ordered_scan [OF k', of example_http]
  note inst'' = base_image_ordered_scan [OF k'', of example_http]
  have f: "find_base_image example_world (bot_id example_request) supported_extensions =
               List.find (\<lambda>path. files example_world path \<noteq> None)
                 (map (\<lambda>ext. ''photos/'' @ bot_id example_request @ ext)
                    [''.jpeg'', ''.jpg'', ''.png'', ''.webp''])"
    by (rule inst [THEN conjunct2, THEN conjunct2, THEN conjunct2, THEN conjunct1,
          rule_format, OF t, THEN conjunct1])
  have f': "find_base_image example_world (bot_id example_request) supported_extensions
       = Some ''photos/delhi_mentor_male.png''"
    unfolding f using fs by (simp add: example_request_simps)
  have g: "generate_image example_world example_request example_http =
       generate_and_respond example_world example_request example_http
         (title (replace_underscore (bot_id example_request)))
         ''photos/delhi_mentor_male.png''
         (extract_context example_world
            (get_bot_response_for_context example_world example_request
               (title (replace_underscore (bot_id example_request)))))"
    by (rule inst [THEN conjunct2, THEN conjunct1, rule_format, OF f'])
  have p: "post_generate_image imageless_world example_request example_http =
             (JSONResponse 404
                [(''status'', ''error''), (''message'', missing_image_detail (bot_id example_request))],
              imageless_world)"
    by (rule inst' [THEN conjunct2, THEN conjunct2, THEN conjunct2, THEN conjunct1,
          rule_format, OF t, THEN conjunct2, rule_format, OF n [rule_format]])
  have p0: "post_generate_image imageless_world example_request example_http =
             (JSONResponse 404
                [(''status'', ''error''), (''message'', missing_image_detail (bot_id example_request))],
              imageless_world)"
    by (rule inst' [THEN conjunct2, THEN conjunct2, THEN conjunct1, rule_format, OF n0 [rule_format]])
  have a: "find_base_image absolute_world (bot_id absolute_request) supported_extensions =
               List.find (\<lambda>path. files absolute_world path \<noteq> None)
                 (map (\<lambda>ext. bot_id absolute_request @ ext)
                    [''.jpeg'', ''.jpg'', ''.png'', ''.webp''])"
    by (rule inst'' [THEN conjunct2, THEN conjunct2, THEN conjunct2, THEN conjunct2,
          rule_format, OF t''])
  have a': "find_base_image absolute_world (bot_id absolute_request) supported_extensions
       = Some ''/tmp/absbot/bot.webp''"
    unfolding a using fs'' by (simp add: absolute_world_simps)
  show ?thesis
    using k k' k'' t t'' fs fs'' f' g p p0 a'
    by (simp add: example_request_simps fs' example_bot_name)
qed

text \<open>
  The claim as the specification words it fails for a registered identifier that begins
  with a slash: none of the four files \<open>photos/<bot_id><ext>\<close> exists, and the request is
  answered with 200, from the photo found at \<open><bot_id>.webp\<close>.
\<close>

theorem base_image_absolute_identifier_counterexample:
  "bot_id absolute_request \<in> VALID_BOT_IDS absolute_world
   \<and> files absolute_world (''photos/'' @ bot_id absolute_request @ ''.jpeg'') = None
   \<and> files absolute_world (''photos/'' @ bot_id absolute_request @ ''.jpg'') = None
   \<and> files absolute_world (''photos/'' @ bot_id absolute_request @ ''.png'') = None
   \<and> files absolute_world (''photos/'' @ bot_id absolute_request @ ''.webp'') = None
   \<and> find_base_image absolute_world (bot_id absolute_request) supported_extensions
       = Some ''/tmp/absbot/bot.webp''
   \<and> status_code (fst (post_generate_image absolute_world absolute_request example_http)) = 200"
proof -
  have k: "bot_id absolute_request \<in> VALID_BOT_IDS absolute_world"
    by (simp add: absolute_world_simps)
  have fs: "files absolute_world (''photos/'' @ bot_id absolute_request @ ''.jpeg'') = None"
    "files absolute_world (''photos/'' @ bot_id absolute_request @ ''.jpg'') = None"
    "files absolute_world (''photos/'' @ bot_id absolute_request @ ''.png'') = None"
    "files absolute_world (''photos/'' @ bot_id absolute_request @ ''.webp'') = None"
    by (simp_all add: absolute_world_def absolute_request_def)
  have f: "find_base_image absolute_world (bot_id absolute_request) supported_extensions
       = Some ''/tmp/absbot/bot.webp''"
    by (simp add: absolute_world_def absolute_request_def supported_extensions_def
        photos_dir_def os_path_join_def path_exists_def)
  have e: "extract_context absolute_world t = JDict [(''emotion'', JString ''delighted'')]" for t
    using absolute_world_simps(3) [of t] absolute_world_simps(4)
    by (rule extract_context_parsed)
  have v: "validate_context absolute_world (JDict [(''emotion'', JString ''delighted'')])
             = Some [(''emotion'', ''delighted'')]"
    by (simp add: validate_context_def validate_str_def)
  have g: "generate_image absolute_world absolute_request example_http =
         (Inr \<lparr>resp_bot_id = bot_id absolute_request,
                image_url = rstrip_slash (base_url example_http)
                   @ ''/static/images/123e4567-e89b-42d3-a456-426614174000.png'',
                image_base64 = ''UklGRv8='',
                status = ''success'',
                emotion_context = [(''emotion'', ''delighted'')]\<rparr>,
          absolute_world
            \<lparr>files := (files absolute_world)
                        (''static/images/123e4567-e89b-42d3-a456-426614174000.png''
                           \<mapsto> [82, 73, 70, 70, 255]),
             uuid4_calls := Suc 0\<rparr>)"
    unfolding generate_image_found [OF k f] e
      example_generate_and_respond [OF absolute_world_simps(2) absolute_world_simps(5)
        absolute_world_simps(6) absolute_world_simps(7) v]
    by (rule refl)
  have "status_code (fst (post_generate_image absolute_world absolute_request example_http))
               = 200"
    unfolding post_generate_image_def g by simp
  then show ?thesis
    using k fs f by (simp only: simp_thms)
qed

text \<open>
  C8. When the reaction call raises, \<open>get_bot_response_for_context\<close> returns
  \<open><bot_name> is thinking about the message: '<message>'\<close>, built from the persona name and
  the user message alone, and the handler goes on with that text exactly as with any
  reaction: scene extraction, then image generation and the response.
\<close>

theorem reaction_failure_absorbed:
  assumes "completion w (reaction_request request bot_name) = CompletionRaises"
  shows "get_bot_response_for_context w request bot_name =
           Some (bot_name @ '' is thinking about the message: '' @ [apostrophe]
                   @ message request @ [apostrophe])
       \<and> (\<forall>p. bot_name = title (replace_underscore (bot_id request))
             \<longrightarrow> bot_id request \<in> VALID_BOT_IDS w
             \<longrightarrow> find_base_image w (bot_id request) supported_extensions = Some p
             \<longrightarrow> generate_image w request http =
                   generate_and_respond w request http bot_name p
                     (extract_context w
                        (Some (bot_name @ '' is thinking about the message: '' @ [apostrophe]
                                 @ message request @ [apostrophe]))))"
proof (intro conjI allI impI)
  show g: "get_bot_response_for_context w request bot_name =
           Some (bot_name @ '' is thinking about the message: '' @ [apostrophe]
                   @ message request @ [apostrophe])"
    using assms by (simp add: get_bot_response_for_context_def reaction_fallback_def)
  fix p
  assume n: "bot_name = title (replace_underscore (bot_id request))"
    and k: "bot_id request \<in> VALID_BOT_IDS w"
    and f: "find_base_image w (bot_id request) supported_extensions = Some p"
  show "generate_image w request http =
                   generate_and_respond w request http bot_name p
                     (extract_context w
                        (Some (bot_name @ '' is thinking about the message: '' @ [apostrophe]
                                 @ message request @ [apostrophe])))"
    unfolding generate_image_found [OF k f] n [symmetric] g ..
qed

theorem reaction_failure_absorbed_witness:
  "completion offline_world (reaction_request example_request ''Delhi Mentor Male'') = CompletionRaises
   \<and> get_bot_response_for_context offline_world example_request ''Delhi Mentor Male'' =
       Some (''Delhi Mentor Male is thinking about the message: 'I passed my exam'' @ [apostrophe])
   \<and> generate_image offline_world example_request example_http =
       (Inr \<lparr>resp_bot_id = ''delhi_mentor_male'',
             image_url = ''http://testserver/static/images/123e4567-e89b-42d3-a456-426614174000.png'',
             image_base64 = ''UklGRv8='',
             status = ''success'',
             emotion_context = [(''emotion'', ''neutral''), (''location'', ''a room''),
                                (''action'', ''looking at the camera'')]\<rparr>,
        offline_world\<lparr>files := (files offline_world)
                         (''static/images/123e4567-e89b-42d3-a456-426614174000.png''
                            \<mapsto> [82, 73, 70, 70, 255]),
                      uuid4_calls := Suc 0\<rparr>)"
proof -
  have h: "completion offline_world (reaction_request example_request ''Delhi Mentor Male'')
             = CompletionRaises"
    by (simp add: offline_world_simps)
  have n: "''Delhi Mentor Male'' = title (replace_underscore (bot_id example_request))"
    by (simp add: example_request_simps example_bot_name)
  have k: "bot_id example_request \<in> VALID_BOT_IDS offline_world"
    by (simp add: offline_world_simps example_request_simps)
  have f: "find_base_image offline_world (bot_id example_request) supported_extensions
             = Some ''photos/delhi_mentor_male.png''"
    by (simp add: offline_world_simps example_request_simps)
  note inst = reaction_failure_absorbed [OF h, of example_http]
  from inst have a: "get_bot_response_for_context offline_world example_request ''Delhi Mentor Male'' =
       Some (''Delhi Mentor Male'' @ '' is thinking about the message: '' @ [apostrophe]
               @ message example_request @ [apostrophe])"
    by (rule conjunct1)
  from inst n k f have g: "generate_image offline_world example_request example_http =
       generate_and_respond offline_world example_request example_http ''Delhi Mentor Male''
         ''photos/delhi_mentor_male.png''
         (extract_context offline_world
            (Some (''Delhi Mentor Male'' @ '' is thinking about the message: '' @ [apostrophe]
                     @ message example_request @ [apostrophe])))"
    by blast
  have e: "extract_context offline_world t = default_context" for t
    by (simp add: extract_context_def offline_world_simps)
  have r: "generate_image offline_world example_request example_http =
       (Inr \<lparr>resp_bot_id = ''delhi_mentor_male'',
             image_url = ''http://testserver/static/images/123e4567-e89b-42d3-a456-426614174000.png'',
             image_base64 = ''UklGRv8='',
             status = ''success'',
             emotion_context = [(''emotion'', ''neutral''), (''location'', ''a room''),
                                (''action'', ''looking at the camera'')]\<rparr>,
        offline_world\<lparr>files := (files offline_world)
                         (''static/images/123e4567-e89b-42d3-a456-426614174000.png''
                            \<mapsto> [82, 73, 70, 70, 255]),
                      uuid4_calls := Suc 0\<rparr>)"
    unfolding g e
    using example_generate_and_respond [of offline_world
        "[(''emotion'', JString ''neutral''), (''location'', JString ''a room''),
          (''action'', JString ''looking at the camera'')]"
        "[(''emotion'', ''neutral''), (''location'', ''a room''), (''action'', ''looking at the camera'')]"
        example_request example_http "''Delhi Mentor Male''" "''photos/delhi_mentor_male.png''"]
      validate_default_context [of offline_world]
    by (simp add: default_context_def offline_world_simps example_http_root example_request_simps)
  show ?thesis
    using h a r by (simp add: example_request_simps apostrophe_def)
qed

text \<open>
  C2. When the scene call raises, returns no content, or returns text that \<open>json.loads\<close>
  rejects, \<open>extract_context\<close> returns the triple \<open>emotion = neutral\<close>, \<open>location = a room\<close>,
  \<open>action = looking at the camera\<close>. The request then goes on to image generation: with a
  client present the image service is called with the prompt built from that triple, and
  a generated image yields the success response carrying the triple.
\<close>

theorem scene_failure_defaults:
  assumes "completion w (scene_request t) = CompletionRaises
         \<or> completion w (scene_request t) = CompletionContent None
         \<or> (\<exists>c. completion w (scene_request t) = CompletionContent (Some c)
                \<and> json_loads w c = None)"
  shows "extract_context w t =
           JDict [(''emotion'', JString ''neutral''), (''location'', JString ''a room''),
                  (''action'', JString ''looking at the camera'')]
       \<and> (\<forall>p cl. bot_id request \<in> VALID_BOT_IDS w
             \<longrightarrow> find_base_image w (bot_id request) supported_extensions = Some p
             \<longrightarrow> t = get_bot_response_for_context w request
                       (title (replace_underscore (bot_id request)))
             \<longrightarrow> gradio_client w = Some cl
             \<longrightarrow> generate_image w request http =
                 (case try_generate w cl
                         \<lparr>images = [p],
                          prompt = ''Close-up portrait of a person who looks like the reference image, with a neutral expression, looking at the camera, at a room. The person's name is ''
                            @ title (replace_underscore (bot_id request))
                            @ ''. Ultra-detailed, dslr quality, cinematic photo.'',
                          negative_prompt = ''nsfw, low quality, deformed, ugly'',
                          api_name = ''/generate_image''\<rparr> of
                    None \<Rightarrow>
                      (Inl (HTTPException 500 ''Failed to generate the image internally.''), w)
                  | Some (r, w') \<Rightarrow>
                      (Inr \<lparr>resp_bot_id = bot_id request,
                            image_url = rstrip_slash (base_url http) @ fst r,
                            image_base64 = snd r,
                            status = ''success'',
                            emotion_context =
                              [(''emotion'', ''neutral''), (''location'', ''a room''),
                               (''action'', ''looking at the camera'')]\<rparr>, w')))"
proof (intro conjI allI impI)
  show e: "extract_context w t =
           JDict [(''emotion'', JString ''neutral''), (''location'', JString ''a room''),
                  (''action'', JString ''looking at the camera'')]"
    using extract_context_fallback [OF assms] by (simp add: default_context_def)
  fix p cl
  assume k: "bot_id request \<in> VALID_BOT_IDS w"
    and f: "find_base_image w (bot_id request) supported_extensions = Some p"
    and t: "t = get_bot_response_for_context w request
                       (title (replace_underscore (bot_id request)))"
    and c: "gradio_client w = Some cl"
  have v: "validate_context w
             (JDict [(''emotion'', JString ''neutral''), (''location'', JString ''a room''),
                  (''action'', JString ''looking at the camera'')]) =
     Some [(''emotion'', ''neutral''), (''location'', ''a room''), (''action'', ''looking at the camera'')]"
    using validate_default_context [of w] by (simp add: default_context_def)
  show "generate_image w request http =
                 (case try_generate w cl
                         \<lparr>images = [p],
                          prompt = ''Close-up portrait of a person who looks like the reference image, with a neutral expression, looking at the camera, at a room. The person's name is ''
                            @ title (replace_underscore (bot_id request))
                            @ ''. Ultra-detailed, dslr quality, cinematic photo.'',
                          negative_prompt = ''nsfw, low quality, deformed, ugly'',
                          api_name = ''/generate_image''\<rparr> of
                    None \<Rightarrow>
                      (Inl (HTTPException 500 ''Failed to generate the image internally.''), w)
                  | Some (r, w') \<Rightarrow>
                      (Inr \<lparr>resp_bot_id = bot_id request,
                            image_url = rstrip_slash (base_url http) @ fst r,
                            image_base64 = snd r,
                            status = ''success'',
                            emotion_context =
                              [(''emotion'', ''neutral''), (''location'', ''a room''),
                               (''action'', ''looking at the camera'')]\<rparr>, w'))"
    unfolding generate_image_found [OF k f] t [symmetric] e
      generate_and_respond_dict [OF c] selfie_request_default v
    by (simp cong: option.case_cong)
qed

theorem scene_failure_defaults_witness:
  "completion garbled_world (scene_request (Some ''Sure, here is the scene:''))
     = CompletionContent (Some ''Sure, here is the scene:'')
   \<and> json_loads garbled_world ''Sure, here is the scene:'' = None
   \<and> extract_context garbled_world (Some ''Sure, here is the scene:'') =
       JDict [(''emotion'', JString ''neutral''), (''location'', JString ''a room''),
              (''action'', JString ''looking at the camera'')]
   \<and> generate_image garbled_world example_request example_http =
       (Inr \<lparr>resp_bot_id = ''delhi_mentor_male'',
             image_url = ''http://testserver/static/images/123e4567-e89b-42d3-a456-426614174000.png'',
             image_base64 = ''UklGRv8='',
             status = ''success'',
             emotion_context = [(''emotion'', ''neutral''), (''location'', ''a room''),
                                (''action'', ''looking at the camera'')]\<rparr>,
        garbled_world\<lparr>files := (files garbled_world)
                         (''static/images/123e4567-e89b-42d3-a456-426614174000.png''
                            \<mapsto> [82, 73, 70, 70, 255]),
                      uuid4_calls := Suc 0\<rparr>)"
proof -
  have h: "completion garbled_world (scene_request (Some ''Sure, here is the scene:'')) = CompletionRaises
         \<or> completion garbled_world (scene_request (Some ''Sure, here is the scene:'')) = CompletionContent None
         \<or> (\<exists>c. completion garbled_world (scene_request (Some ''Sure, here is the scene:''))
                  = CompletionContent (Some c) \<and> json_loads garbled_world c = None)"
    by (simp add: garbled_world_simps)
  have t: "Some ''Sure, here is the scene:'' =
             get_bot_response_for_context garbled_world example_request
               (title (replace_underscore (bot_id example_request)))"
    by (simp add: get_bot_response_for_context_def garbled_world_simps)
  have k: "bot_id example_request \<in> VALID_BOT_IDS garbled_world"
    by (simp add: garbled_world_simps example_request_simps)
  have f: "find_base_image garbled_world (bot_id example_request) supported_extensions
             = Some ''photos/delhi_mentor_male.png''"
    by (simp add: garbled_world_simps example_request_simps)
  have c: "gradio_client garbled_world = Some example_client"
    by (simp add: garbled_world_simps)
  note inst = scene_failure_defaults [OF h, of example_request example_http]
  from inst have e: "extract_context garbled_world (Some ''Sure, here is the scene:'') =
       JDict [(''emotion'', JString ''neutral''), (''location'', JString ''a room''),
              (''action'', JString ''looking at the camera'')]"
    by (rule conjunct1)
  from inst k f t c have g: "generate_image garbled_world example_request example_http =
       (case try_generate garbled_world example_client
               \<lparr>images = [''photos/delhi_mentor_male.png''],
                prompt = ''Close-up portrait of a person who looks like the reference image, with a neutral expression, looking at the camera, at a room. The person's name is ''
                  @ title (replace_underscore (bot_id example_request))
                  @ ''. Ultra-detailed, dslr quality, cinematic photo.'',
                negative_prompt = ''nsfw, low quality, deformed, ugly'',
                api_name = ''/generate_image''\<rparr> of
          None \<Rightarrow> (Inl (HTTPException 500 ''Failed to generate the image internally.''), garbled_world)
        | Some (r, w') \<Rightarrow>
            (Inr \<lparr>resp_bot_id = bot_id example_request,
                  image_url = rstrip_slash (base_url example_http) @ fst r,
                  image_base64 = snd r,
                  status = ''success'',
                  emotion_context =
                    [(''emotion'', ''neutral''), (''location'', ''a room''),
                     (''action'', ''looking at the camera'')]\<rparr>, w'))"
    by blast
  have r: "generate_image garbled_world example_request example_http =
       (Inr \<lparr>resp_bot_id = ''delhi_mentor_male'',
             image_url = ''http://testserver/static/images/123e4567-e89b-42d3-a456-426614174000.png'',
             image_base64 = ''UklGRv8='',
             status = ''success'',
             emotion_context = [(''emotion'', ''neutral''), (''location'', ''a room''),
                                (''action'', ''looking at the camera'')]\<rparr>,
        garbled_world\<lparr>files := (files garbled_world)
                         (''static/images/123e4567-e89b-42d3-a456-426614174000.png''
                            \<mapsto> [82, 73, 70, 70, 255]),
                      uuid4_calls := Suc 0\<rparr>)"
    unfolding g
    by (simp add: example_try_generate garbled_world_simps example_http_root example_request_simps)
  show ?thesis
    using e r by (simp add: garbled_world_simps)
qed

lemma validate_string_dict:
  "validate_context w (JDict (map (\<lambda>(k, s). (k, JString s)) kss)) = Some kss"
proof -
  have "those (map (\<lambda>(k, v). map_option (Pair k) (validate_str w v))
                 (map (\<lambda>(k, s). (k, JString s)) kss)) = Some kss"
    by (induction kss) (auto simp: validate_str_def)
  then show ?thesis by (simp add: validate_context_def)
qed

lemma format_dict_get:
  "format_value w (dict_get kvs k (JString d)) =
     (case map_of kvs k of None \<Rightarrow> d | Some v \<Rightarrow> format_value w v)"
  by (simp add: dict_get_def format_value_def split: option.split)

lemma selfie_request_explicit:
  "selfie_request w n p kvs =
     \<lparr>images = [p],
      prompt =
        ''Close-up portrait of a person who looks like the reference image, with a ''
        @ (case map_of kvs ''emotion'' of
             None \<Rightarrow> ''neutral expression'' | Some v \<Rightarrow> format_value w v)
        @ '' expression, ''
        @ (case map_of kvs ''action'' of
             None \<Rightarrow> ''looking at the camera'' | Some v \<Rightarrow> format_value w v)
        @ '', at ''
        @ (case map_of kvs ''location'' of
             None \<Rightarrow> ''a neutral background'' | Some v \<Rightarrow> format_value w v)
        @ ''. The person's name is '' @ n
        @ ''. Ultra-detailed, dslr quality, cinematic photo.'',
      negative_prompt = ''nsfw, low quality, deformed, ugly'',
      api_name = ''/generate_image''\<rparr>"
  by (simp add: selfie_request_def prompt_text_def format_dict_get)

text \<open>
  C5, as the code has it. When the scene call returns text that \<open>json.loads\<close> parses to an
  object, \<open>extract_context\<close> returns that object as it is; nothing of the default triple is
  merged into it. The prompt handed to the image service is built from it: a key that is
  present contributes its value (a string verbatim), a missing key the fallback written
  in the prompt code, \<open>neutral expression\<close>, \<open>looking at the camera\<close> or
  \<open>a neutral background\<close>. The response carries the object once its values have passed
  as strings: the keys of \<open>emotion_context\<close> are the keys of the parsed object, and an object
  whose values are all strings is returned unchanged. An object with a value the response
  model rejects ends in \<open>ValidationError\<close> instead of a response.
\<close>

theorem parsed_object_replaces_context:
  assumes "completion w (scene_request t) = CompletionContent (Some c)"
    and "json_loads w c = Some (JDict kvs)"
  shows "extract_context w t = JDict kvs
       \<and> (\<forall>p cl. bot_id request \<in> VALID_BOT_IDS w
             \<longrightarrow> find_base_image w (bot_id request) supported_extensions = Some p
             \<longrightarrow> t = get_bot_response_for_context w request
                       (title (replace_underscore (bot_id request)))
             \<longrightarrow> gradio_client w = Some cl
             \<longrightarrow> generate_image w request http =
                 (case try_generate w cl
                         \<lparr>images = [p],
                          prompt =
                            ''Close-up portrait of a person who looks like the reference image, with a ''
                            @ (case map_of kvs ''emotion'' of
                                 None \<Rightarrow> ''neutral expression'' | Some v \<Rightarrow> format_value w v)
                            @ '' expression, ''
                            @ (case map_of kvs ''action'' of
                                 None \<Rightarrow> ''looking at the camera'' | Some v \<Rightarrow> format_value w v)
                            @ '', at ''
                            @ (case map_of kvs ''location'' of
                                 None \<Rightarrow> ''a neutral background'' | Some v \<Rightarrow> format_value w v)
                            @ ''. The person's name is ''
                            @ title (replace_underscore (bot_id request))
                            @ ''. Ultra-detailed, dslr quality, cinematic photo.'',
                          negative_prompt = ''nsfw, low quality, deformed, ugly'',
                          api_name = ''/generate_image''\<rparr> of
                    None \<Rightarrow>
                      (Inl (HTTPException 500 ''Failed to generate the image internally.''), w)
                  | Some (r, w') \<Rightarrow>
                      (case validate_context w (JDict kvs) of
                         None \<Rightarrow> (Inl ValidationError, w')
                       | Some ec \<Rightarrow>
                           (Inr \<lparr>resp_bot_id = bot_id request,
                                 image_url = rstrip_slash (base_url http) @ fst r,
                                 image_base64 = snd r,
                                 status = ''success'',
                                 emotion_context = ec\<rparr>, w'))))
       \<and> (\<forall>s. format_value w (JString s) = s)
       \<and> (\<forall>ec. validate_context w (JDict kvs) = Some ec \<longrightarrow> map fst ec = map fst kvs)
       \<and> (\<forall>kss. kvs = map (\<lambda>(k, s). (k, JString s)) kss
             \<longrightarrow> validate_context w (JDict kvs) = Some kss)"
proof (intro conjI allI impI)
  show "validate_context w (JDict kvs) = Some kss"
    if "kvs = map (\<lambda>(k, s). (k, JString s)) kss" for kss
    unfolding that by (rule validate_string_dict)
  show e: "extract_context w t = JDict kvs"
    using assms by (rule extract_context_parsed)
  show "map fst ec = map fst kvs" if "validate_context w (JDict kvs) = Some ec" for ec
    using that by (rule validate_context_keys)
  show "format_value w (JString s) = s" for s
    by (simp add: format_value_def)
  fix p cl
  assume k: "bot_id request \<in> VALID_BOT_IDS w"
    and f: "find_base_image w (bot_id request) supported_extensions = Some p"
    and t: "t = get_bot_response_for_context w request
                       (title (replace_underscore (bot_id request)))"
    and c: "gradio_client w = Some cl"
  show "generate_image w request http =
                 (case try_generate w cl
                         \<lparr>images = [p],
                          prompt =
                            ''Close-up portrait of a person who looks like the reference image, with a ''
                            @ (case map_of kvs ''emotion'' of
                                 None \<Rightarrow> ''neutral expression'' | Some v \<Rightarrow> format_value w v)
                            @ '' expression, ''
                            @ (case map_of kvs ''action'' of
                                 None \<Rightarrow> ''looking at the camera'' | Some v \<Rightarrow> format_value w v)
                            @ '', at ''
                            @ (case map_of kvs ''location'' of
                                 None \<Rightarrow> ''a neutral background'' | Some v \<Rightarrow> format_value w v)
                            @ ''. The person's name is ''
                            @ title (replace_underscore (bot_id request))
                            @ ''. Ultra-detailed, dslr quality, cinematic photo.'',
                          negative_prompt = ''nsfw, low quality, deformed, ugly'',
                          api_name = ''/generate_image''\<rparr> of
                    None \<Rightarrow>
                      (Inl (HTTPException 500 ''Failed to generate the image internally.''), w)
                  | Some (r, w') \<Rightarrow>
                      (case validate_context w (JDict kvs) of
                         None \<Rightarrow> (Inl ValidationError, w')
                       | Some ec \<Rightarrow>
                           (Inr \<lparr>resp_bot_id = bot_id request,
                                 image_url = rstrip_slash (base_url http) @ fst r,
                                 image_base64 = snd r,
                                 status = ''success'',
                                 emotion_context = ec\<rparr>, w')))"
    unfolding generate_image_found [OF k f] t [symmetric] e
      selfie_request_explicit [symmetric]
    by (rule generate_and_respond_dict [OF c])
qed

theorem parsed_object_replaces_context_witness:
  "completion example_world (scene_request (Some ''What wonderful news!''))
     = CompletionContent (Some example_scene)
   \<and> json_loads example_world example_scene = Some (JDict [(''emotion'', JString ''delighted'')])
   \<and> extract_context example_world (Some ''What wonderful news!'')
       = JDict [(''emotion'', JString ''delighted'')]
   \<and> generate_image example_world example_request example_http =
       (case try_generate example_world example_client
               \<lparr>images = [''photos/delhi_mentor_male.png''],
                prompt = ''Close-up portrait of a person who looks like the reference image, with a delighted expression, looking at the camera, at a neutral background. The person's name is Delhi Mentor Male. Ultra-detailed, dslr quality, cinematic photo.'',
                negative_prompt = ''nsfw, low quality, deformed, ugly'',
                api_name = ''/generate_image''\<rparr> of
          None \<Rightarrow> (Inl (HTTPException 500 ''Failed to generate the image internally.''), example_world)
        | Some (r, w') \<Rightarrow>
            (Inr \<lparr>resp_bot_id = ''delhi_mentor_male'',
                  image_url = ''http://testserver'' @ fst r,
                  image_base64 = snd r,
                  status = ''success'',
                  emotion_context = [(''emotion'', ''delighted'')]\<rparr>, w'))
   \<and> generate_image example_world example_request example_http =
       (Inr \<lparr>resp_bot_id = ''delhi_mentor_male'',
             image_url = ''http://testserver/static/images/123e4567-e89b-42d3-a456-426614174000.png'',
             image_base64 = ''UklGRv8='',
             status = ''success'',
             emotion_context = [(''emotion'', ''delighted'')]\<rparr>,
        example_world\<lparr>files := (files example_world)
                         (''static/images/123e4567-e89b-42d3-a456-426614174000.png''
                            \<mapsto> [82, 73, 70, 70, 255]),
                      uuid4_calls := Suc 0\<rparr>)
   \<and> validate_context example_world (JDict [(''emotion'', JString ''delighted'')])
       = Some [(''emotion'', ''delighted'')]"
proof -
  have m0: "[(''emotion'', JString ''delighted'')]
              = map (\<lambda>(k, s). (k, JString s)) [(''emotion'', ''delighted'')]"
    by simp
  have h1: "completion example_world (scene_request (Some ''What wonderful news!''))
              = CompletionContent (Some example_scene)"
    by (simp add: example_world_simps)
  have h2: "json_loads example_world example_scene
              = Some (JDict [(''emotion'', JString ''delighted'')])"
    by (simp add: example_world_simps)
  have t: "Some ''What wonderful news!'' =
             get_bot_response_for_context example_world example_request
               (title (replace_underscore (bot_id example_request)))"
    by (simp add: get_bot_response_for_context_def example_world_simps)
  have k: "bot_id example_request \<in> VALID_BOT_IDS example_world"
    by (rule example_bot_known)
  have f: "find_base_image example_world (bot_id example_request) supported_extensions
             = Some ''photos/delhi_mentor_male.png''"
    by (simp add: example_base_image example_request_simps)
  have c: "gradio_client example_world = Some example_client"
    by (simp add: example_world_simps)
  note inst = parsed_object_replaces_context [OF h1 h2, of example_request example_http]
  from inst have e: "extract_context example_world (Some ''What wonderful news!'')
       = JDict [(''emotion'', JString ''delighted'')]"
    by (rule conjunct1)
  have d3: "validate_context example_world (JDict [(''emotion'', JString ''delighted'')])
       = Some [(''emotion'', ''delighted'')]"
    by (rule inst [THEN conjunct2, THEN conjunct2, THEN conjunct2, THEN conjunct2,
          rule_format, OF m0])
  have g0: "generate_image example_world example_request example_http =
       (case try_generate example_world example_client
               \<lparr>images = [''photos/delhi_mentor_male.png''],
                prompt =
                  ''Close-up portrait of a person who looks like the reference image, with a ''
                  @ (case map_of [(''emotion'', JString ''delighted'')] ''emotion'' of
                       None \<Rightarrow> ''neutral expression'' | Some v \<Rightarrow> format_value example_world v)
                  @ '' expression, ''
                  @ (case map_of [(''emotion'', JString ''delighted'')] ''action'' of
                       None \<Rightarrow> ''looking at the camera'' | Some v \<Rightarrow> format_value example_world v)
                  @ '', at ''
                  @ (case map_of [(''emotion'', JString ''delighted'')] ''location'' of
                       None \<Rightarrow> ''a neutral background'' | Some v \<Rightarrow> format_value example_world v)
                  @ ''. The person's name is ''
                  @ title (replace_underscore (bot_id example_request))
                  @ ''. Ultra-detailed, dslr quality, cinematic photo.'',
                negative_prompt = ''nsfw, low quality, deformed, ugly'',
                api_name = ''/generate_image''\<rparr> of
          None \<Rightarrow> (Inl (HTTPException 500 ''Failed to generate the image internally.''), example_world)
        | Some (r, w') \<Rightarrow>
            (case validate_context example_world (JDict [(''emotion'', JString ''delighted'')]) of
               None \<Rightarrow> (Inl ValidationError, w')
             | Some ec \<Rightarrow>
                 (Inr \<lparr>resp_bot_id = bot_id example_request,
                       image_url = rstrip_slash (base_url example_http) @ fst r,
                       image_base64 = snd r,
                       status = ''success'',
                       emotion_context = ec\<rparr>, w')))"
    by (rule inst [THEN conjunct2, THEN conjunct1, rule_format, OF k f t c])
  have g: "generate_image example_world example_request example_http =
       (case try_generate example_world example_client
               \<lparr>images = [''photos/delhi_mentor_male.png''],
                prompt = ''Close-up portrait of a person who looks like the reference image, with a delighted expression, looking at the camera, at a neutral background. The person's name is Delhi Mentor Male. Ultra-detailed, dslr quality, cinematic photo.'',
                negative_prompt = ''nsfw, low quality, deformed, ugly'',
                api_name = ''/generate_image''\<rparr> of
          None \<Rightarrow> (Inl (HTTPException 500 ''Failed to generate the image internally.''), example_world)
        | Some (r, w') \<Rightarrow>
            (Inr \<lparr>resp_bot_id = ''delhi_mentor_male'',
                  image_url = ''http://testserver'' @ fst r,
                  image_base64 = snd r,
                  status = ''success'',
                  emotion_context = [(''emotion'', ''delighted'')]\<rparr>, w'))"
    unfolding g0 d3
    by (simp add: format_value_def example_request_simps example_bot_name example_http_root
        cong: option.case_cong)
  have r: "generate_image example_world example_request example_http =
       (Inr \<lparr>resp_bot_id = ''delhi_mentor_male'',
             image_url = ''http://testserver/static/images/123e4567-e89b-42d3-a456-426614174000.png'',
             image_base64 = ''UklGRv8='',
             status = ''success'',
             emotion_context = [(''emotion'', ''delighted'')]\<rparr>,
        example_world\<lparr>files := (files example_world)
                         (''static/images/123e4567-e89b-42d3-a456-426614174000.png''
                            \<mapsto> [82, 73, 70, 70, 255]),
                      uuid4_calls := Suc 0\<rparr>)"
    unfolding g
    by (simp add: example_try_generate example_world_simps)
  show ?thesis
    using h1 h2 e g r d3 by (simp only: simp_thms)
qed

text \<open>
  The claim as the specification words it, the parsed object used as it is for the
  response, fails for the object \<open>{"emotion": 5}\<close>, which lacks two of the three keys: the
  prompt is built from it and the image is saved, but the response model rejects the
  number and the request ends in the framework's 500.
\<close>

theorem parsed_object_response_counterexample:
  "completion numeric_world (scene_request (Some ''What wonderful news!''))
     = CompletionContent (Some numeric_scene)
   \<and> json_loads numeric_world numeric_scene = Some (JDict [(''emotion'', JInt 5)])
   \<and> extract_context numeric_world (Some ''What wonderful news!'') = JDict [(''emotion'', JInt 5)]
   \<and> fst (generate_image numeric_world example_request example_http) = Inl ValidationError
   \<and> fst (post_generate_image numeric_world example_request example_http) = ServerError
   \<and> status_code (fst (post_generate_image numeric_world example_request example_http)) = 500"
proof -
  have s: "VALID_BOT_IDS numeric_world = {''delhi_mentor_male''}"
    "gradio_client numeric_world = Some example_client"
    "completion numeric_world (reaction_request rd n) = CompletionContent (Some ''What wonderful news!'')"
    "completion numeric_world (scene_request t) = CompletionContent (Some numeric_scene)"
    "json_loads numeric_world numeric_scene = Some (JDict [(''emotion'', JInt 5)])"
    "files numeric_world ''/tmp/gradio/image.webp'' = Some [82, 73, 70, 70, 255]"
    "uuid4 numeric_world = example_uuid4"
    "uuid4_calls numeric_world = 0"
    "coerce_str numeric_world = (\<lambda>v. None)"
    "find_base_image numeric_world ''delhi_mentor_male'' supported_extensions
       = Some ''photos/delhi_mentor_male.png''"
    for rd n t
    by (simp_all add: numeric_world_def example_world_def reaction_request_def scene_request_def
        supported_extensions_def photos_dir_def os_path_join_def path_exists_def)
  have k: "bot_id example_request \<in> VALID_BOT_IDS numeric_world"
    by (simp add: s example_request_simps)
  have f: "find_base_image numeric_world (bot_id example_request) supported_extensions
             = Some ''photos/delhi_mentor_male.png''"
    by (simp add: s example_request_simps)
  have t: "get_bot_response_for_context numeric_world example_request n
             = Some ''What wonderful news!''" for n
    by (simp add: get_bot_response_for_context_def s)
  have e: "extract_context numeric_world t = JDict [(''emotion'', JInt 5)]" for t
    using s(4) [of t] s(5) by (rule extract_context_parsed)
  have v: "validate_context numeric_world (JDict [(''emotion'', JInt 5)]) = None"
    by (simp add: validate_context_def validate_str_def s)
  have g: "generate_image numeric_world example_request example_http =
             (Inl ValidationError,
              numeric_world\<lparr>files := (files numeric_world)
                         (''static/images/123e4567-e89b-42d3-a456-426614174000.png''
                            \<mapsto> [82, 73, 70, 70, 255]),
                      uuid4_calls := Suc 0\<rparr>)"
    unfolding generate_image_found [OF k f] t e generate_and_respond_dict [OF s(2)] v
    by (simp add: example_try_generate s)
  show ?thesis
    using s(4) [of "Some ''What wonderful news!''"] s(5) e g
    by (simp add: post_generate_image_def)
qed

section \<open>Base64 decoding inverts encoding\<close>

lemma index_of_nth:
  "distinct xs \<Longrightarrow> i < length xs \<Longrightarrow> index_of (xs ! i) xs = Some i"
proof (induction xs arbitrary: i)
  case Nil
  then show ?case by simp
next
  case (Cons x xs)
  show ?case
  proof (cases i)
    case 0
    then show ?thesis by simp
  next
    case (Suc j)
    with Cons.prems have "xs ! j \<noteq> x" "j < length xs" "distinct xs"
      by auto
    with Cons.IH [of j] Suc show ?thesis by auto
  qed
qed

lemma b64_alphabet_distinct: "distinct b64_alphabet"
  by (simp add: b64_alphabet_def)

lemma b64_alphabet_length: "length b64_alphabet = 64"
  by (simp add: b64_alphabet_def)

lemma b64_index_char: "i < 64 \<Longrightarrow> b64_index (b64_char i) = Some i"
  unfolding b64_index_def b64_char_def
  by (rule index_of_nth [OF b64_alphabet_distinct]) (simp add: b64_alphabet_length)

lemma b64_char_not_pad: "i < 64 \<Longrightarrow> b64_char i \<noteq> CHR ''=''"
proof -
  assume "i < 64"
  then have "b64_char i \<in> set b64_alphabet"
    unfolding b64_char_def by (simp add: b64_alphabet_length)
  moreover have "CHR ''='' \<notin> set b64_alphabet"
    by (simp add: b64_alphabet_def)
  ultimately show ?thesis by auto
qed



lemma sextets:
  fixes n :: nat
  shows "n div 262144 * 262144 + n div 4096 mod 64 * 4096 + n div 64 mod 64 * 64 + n mod 64 = n"
proof -
  define q1 s1 q2 s2 q3 s3 where "q1 = n div 64" and "s1 = n mod 64"
    and "q2 = n div 4096" and "s2 = n div 64 mod 64"
    and "q3 = n div 262144" and "s3 = n div 4096 mod 64"
  have d2: "q2 = q1 div 64"
    unfolding q2_def q1_def by (simp add: div_mult2_eq [symmetric])
  have d3: "q3 = q2 div 64"
    unfolding q3_def q2_def by (simp add: div_mult2_eq [symmetric])
  have a: "n = q1 * 64 + s1"
    unfolding q1_def s1_def by simp
  have b: "q1 = q2 * 64 + s2"
    unfolding d2 s2_def q1_def by simp
  have c: "q2 = q3 * 64 + s3"
    unfolding d3 s3_def q2_def by simp
  have "q3 * 262144 + s3 * 4096 + s2 * 64 + s1 = n"
    using a b c by simp
  then show ?thesis
    unfolding q3_def s3_def s2_def s1_def .
qed

lemma octets:
  fixes a b c :: nat
  assumes "b < 256" "c < 256"
  shows "(a * 65536 + b * 256 + c) div 65536 = a"
    and "(a * 65536 + b * 256 + c) div 256 mod 256 = b"
    and "(a * 65536 + b * 256 + c) mod 256 = c"
proof -
  have r: "b * 256 + c < 65536" using assms by simp
  have e1: "a * 65536 + b * 256 + c = a * 65536 + (b * 256 + c)" by simp
  have "(a * 65536 + (b * 256 + c)) div 65536 = a + (b * 256 + c) div 65536"
    by (rule div_mult_self3) simp
  with r have "(a * 65536 + (b * 256 + c)) div 65536 = a"
    by simp
  then show "(a * 65536 + b * 256 + c) div 65536 = a"
    by (simp only: e1)
  have e: "a * 65536 + b * 256 + c = (a * 256 + b) * 256 + c" by simp
  have "((a * 256 + b) * 256 + c) mod 256 = c mod 256"
    by (rule mod_mult_self3)
  with assms have "((a * 256 + b) * 256 + c) mod 256 = c"
    by simp
  then show "(a * 65536 + b * 256 + c) mod 256 = c"
    by (simp only: e)
  have "((a * 256 + b) * 256 + c) div 256 = (a * 256 + b) + c div 256"
    by (rule div_mult_self3) simp
  with assms have "((a * 256 + b) * 256 + c) div 256 = a * 256 + b"
    by simp
  then have d: "(a * 65536 + b * 256 + c) div 256 = a * 256 + b"
    by (simp only: e)
  have "(a * 256 + b) mod 256 = b mod 256"
    by (rule mod_mult_self3)
  with assms show "(a * 65536 + b * 256 + c) div 256 mod 256 = b"
    by (simp only: d mod_less)
qed


lemma sextets3:
  fixes n :: nat
  shows "n div 4096 * 4096 + n div 64 mod 64 * 64 + n mod 64 = n"
proof -
  define q1 s1 q2 s2 where "q1 = n div 64" and "s1 = n mod 64"
    and "q2 = n div 4096" and "s2 = n div 64 mod 64"
  have d2: "q2 = q1 div 64"
    unfolding q2_def q1_def by (simp add: div_mult2_eq [symmetric])
  have a: "n = q1 * 64 + s1"
    unfolding q1_def s1_def by simp
  have b: "q1 = q2 * 64 + s2"
    unfolding d2 s2_def q1_def by simp
  have "q2 * 4096 + s2 * 64 + s1 = n"
    using a b by simp
  then show ?thesis
    unfolding q2_def s2_def s1_def .
qed

lemma sextets2:
  fixes n :: nat
  shows "n div 64 * 64 + n mod 64 = n"
  by simp

lemma decode_group:
  assumes "n < 16777216" and "b64decode rest = Some bs"
  shows "b64decode (b64_char (n div 262144) # b64_char (n div 4096 mod 64)
            # b64_char (n div 64 mod 64) # b64_char (n mod 64) # rest)
         = Some (of_nat (n div 65536) # of_nat (n div 256 mod 256) # of_nat (n mod 256) # bs)"
proof -
  have l: "n div 262144 < 64" using assms(1) by simp
  have i: "b64_index (b64_char (n div 262144)) = Some (n div 262144)"
    "b64_index (b64_char (n div 4096 mod 64)) = Some (n div 4096 mod 64)"
    "b64_index (b64_char (n div 64 mod 64)) = Some (n div 64 mod 64)"
    "b64_index (b64_char (n mod 64)) = Some (n mod 64)"
    using l by (simp_all add: b64_index_char)
  have p: "b64_char (n div 64 mod 64) \<noteq> CHR ''=''" "b64_char (n mod 64) \<noteq> CHR ''=''"
    by (simp_all add: b64_char_not_pad)
  show ?thesis
    by (simp only: b64decode.simps i p prod.case option.case if_False simp_thms Let_def
        assms(2) sextets)
qed

lemma decode_last2:
  assumes "n < 262144"
  shows "b64decode [b64_char (n div 4096), b64_char (n div 64 mod 64), b64_char (n mod 64), CHR ''='']
         = Some [of_nat (n div 1024), of_nat (n div 4 mod 256)]"
proof -
  have l: "n div 4096 < 64" using assms by simp
  have i: "b64_index (b64_char (n div 4096)) = Some (n div 4096)"
    "b64_index (b64_char (n div 64 mod 64)) = Some (n div 64 mod 64)"
    "b64_index (b64_char (n mod 64)) = Some (n mod 64)"
    using l by (simp_all add: b64_index_char)
  have p: "b64_char (n div 64 mod 64) \<noteq> CHR ''=''" "b64_char (n mod 64) \<noteq> CHR ''=''"
    by (simp_all add: b64_char_not_pad)
  show ?thesis
    by (simp only: b64decode.simps i p prod.case option.case if_False if_True simp_thms Let_def
        sextets3)
qed

lemma decode_last1:
  assumes "n < 4096"
  shows "b64decode [b64_char (n div 64), b64_char (n mod 64), CHR ''='', CHR ''='']
         = Some [of_nat (n div 16)]"
proof -
  have l: "n div 64 < 64" using assms by simp
  have i: "b64_index (b64_char (n div 64)) = Some (n div 64)"
    "b64_index (b64_char (n mod 64)) = Some (n mod 64)"
    using l by (simp_all add: b64_index_char)
  show ?thesis
    by (simp only: b64decode.simps i prod.case option.case if_True simp_thms sextets2)
qed


lemma pair_octets:
  fixes a b :: nat
  assumes "b < 256"
  shows "(a * 256 + b) * 4 div 1024 = a" and "(a * 256 + b) * 4 div 4 mod 256 = b"
proof -
  have d: "(a * 256 + b) * 4 div 4 = a * 256 + b"
    by simp
  have "(a * 256 + b) mod 256 = b mod 256"
    by (rule mod_mult_self3)
  with assms show "(a * 256 + b) * 4 div 4 mod 256 = b"
    by (simp only: d mod_less)
  have "(a * 256 + b) * 4 div (4 * 256) = (a * 256 + b) * 4 div 4 div 256"
    by (rule div_mult2_eq)
  also have "\<dots> = (a * 256 + b) div 256"
    by (simp only: d)
  also have "\<dots> = a + b div 256"
    by (rule div_mult_self3) simp
  also have "\<dots> = a"
    using assms by simp
  finally show "(a * 256 + b) * 4 div 1024 = a"
    by simp
qed

lemma unat_byte: "unat (a :: byte) < 256"
  using unsigned_less [of a, where ?'a = nat] by simp

lemma b64_roundtrip: "b64decode (b64encode bs) = Some bs"
proof (induction bs rule: b64encode.induct)
  case 1
  show ?case by simp
next
  case (2 a)
  have "unat a * 16 < 4096"
    using unat_byte [of a] by simp
  then have "b64decode [b64_char (unat a * 16 div 64), b64_char (unat a * 16 mod 64),
                        CHR ''='', CHR ''='']
             = Some [of_nat (unat a * 16 div 16)]"
    by (rule decode_last1)
  then show ?case
    by (simp add: Let_def del: b64decode.simps)
next
  case (3 a b)
  have "(unat a * 256 + unat b) * 4 < 262144"
    using unat_byte [of a] unat_byte [of b] by simp
  then have "b64decode
      [b64_char ((unat a * 256 + unat b) * 4 div 4096),
       b64_char ((unat a * 256 + unat b) * 4 div 64 mod 64),
       b64_char ((unat a * 256 + unat b) * 4 mod 64), CHR ''='']
      = Some [of_nat ((unat a * 256 + unat b) * 4 div 1024),
              of_nat ((unat a * 256 + unat b) * 4 div 4 mod 256)]"
    by (rule decode_last2)
  then have "b64decode (b64encode [a, b]) = Some [of_nat (unat a), of_nat (unat b)]"
    by (simp only: b64encode.simps Let_def pair_octets [OF unat_byte])
  then show ?case
    by (simp del: b64decode.simps b64encode.simps)
next
  case (4 a b c rest)
  have "unat a * 65536 + unat b * 256 + unat c < 16777216"
    using unat_byte [of a] unat_byte [of b] unat_byte [of c] by simp
  from decode_group [OF this "4.IH"]
  have "b64decode (b64encode (a # b # c # rest))
        = Some (of_nat (unat a) # of_nat (unat b) # of_nat (unat c) # rest)"
    by (simp only: b64encode.simps Let_def append_Cons append_Nil
        octets [OF unat_byte unat_byte])
  then show ?case
    by (simp del: b64decode.simps b64encode.simps)
qed

section \<open>The printed form of a UUID\<close>

lemma hex_digits_length: "length (hex_digits k n) = k"
  by (induction k arbitrary: n) simp_all


lemma hex_digit_in: "i < 16 \<Longrightarrow> hex_digit i \<in> set ''0123456789abcdef''"
  unfolding hex_digit_def by (rule nth_mem) simp

lemma hex_digits_set: "set (hex_digits k n) \<subseteq> set ''0123456789abcdef''"
proof (induction k arbitrary: n)
  case 0
  show ?case by simp
next
  case (Suc k)
  have "hex_digit (n mod 16) \<in> set ''0123456789abcdef''"
    by (rule hex_digit_in) simp
  moreover have "set (hex_digits (Suc k) n)
                   = set (hex_digits k (n div 16)) \<union> {hex_digit (n mod 16)}"
    by simp
  ultimately show ?case
    using Suc [of "n div 16"] by blast
qed








lemma uuid_str_length: "length (uuid_str u) = 36"
  by (simp add: uuid_str_def Let_def hex32_def hex_digits_length)

lemma uuid_str_chars:
  assumes "c \<in> set (uuid_str u)"
  shows "c = CHR ''-'' \<or> c \<in> set ''0123456789abcdef''"
proof -
  have "c = CHR ''-'' \<or> c \<in> set (hex32 u)"
    using assms unfolding uuid_str_def Let_def
    by (auto dest: in_set_takeD in_set_dropD)
  moreover have "set (hex32 u) \<subseteq> set ''0123456789abcdef''"
    unfolding hex32_def by (rule hex_digits_set)
  ultimately show ?thesis by blast
qed

lemma uuid_str_no_delimiter:
  "CHR ''/'' \<notin> set (uuid_str u)" "CHR ''?'' \<notin> set (uuid_str u)" "CHR ''#'' \<notin> set (uuid_str u)"
  using uuid_str_chars [of "CHR ''/''" u] uuid_str_chars [of "CHR ''?''" u]
    uuid_str_chars [of "CHR ''#''" u]
  by auto



section \<open>What a successful request leaves behind\<close>

lemma save_image_Some:
  assumes "save_image w v = Some ((path, b64), w')"
  shows "\<exists>tp bs. v = JString tp \<and> files w tp = Some bs
           \<and> path = ''/static/images/'' @ unique_filename (uuid4 w (uuid4_calls w))
           \<and> b64 = b64encode bs
           \<and> w' = w\<lparr>files := (files w)(output_path (uuid4 w (uuid4_calls w)) \<mapsto> bs),
                     uuid4_calls := Suc (uuid4_calls w)\<rparr>"
proof (cases v)
  case (JString tp)
  with assms obtain bs where "files w tp = Some bs"
    by (cases "files w tp") (simp_all add: save_image_def read_image_def)
  with assms JString show ?thesis
    by (simp add: save_image_def read_image_def Let_def del: b64encode.simps)
qed (use assms in \<open>simp_all add: save_image_def read_image_def\<close>)

lemma try_generate_Some:
  assumes "try_generate w c rq = Some (r, w')"
  shows "\<exists>res v. c rq = PredictReturns res \<and> image_reference res = Some v
           \<and> save_image w v = Some (r, w')"
  using assms
  by (auto simp: try_generate_def split: predict_outcome.splits option.splits)

lemma generate_and_save_selfie_Inr:
  assumes "generate_and_save_selfie w n p ctx = (Inr (path, b64), w')"
  shows "\<exists>tp bs. files w tp = Some bs
           \<and> path = ''/static/images/'' @ unique_filename (uuid4 w (uuid4_calls w))
           \<and> b64 = b64encode bs
           \<and> w' = w\<lparr>files := (files w)(output_path (uuid4 w (uuid4_calls w)) \<mapsto> bs),
                     uuid4_calls := Suc (uuid4_calls w)\<rparr>"
proof -
  from assms obtain c kvs where "try_generate w c (selfie_request w n p kvs) = Some ((path, b64), w')"
    by (auto simp: generate_and_save_selfie_def split: option.splits json.splits)
  then obtain v where "save_image w v = Some ((path, b64), w')"
    using try_generate_Some by blast
  then show ?thesis
    using save_image_Some by blast
qed

lemma generate_and_save_selfie_Inl:
  assumes "generate_and_save_selfie w n p ctx = (Inl e, w')"
  shows "w' = w"
  using assms
  by (auto simp: generate_and_save_selfie_def split: option.splits json.splits)


lemma generate_and_respond_Inr:
  assumes "generate_and_respond w request http n p ctx = (Inr r, w')"
  shows "\<exists>path b64. generate_and_save_selfie w n p ctx = (Inr (path, b64), w')
           \<and> image_url r = rstrip_slash (base_url http) @ path \<and> image_base64 r = b64"
proof (cases "generate_and_save_selfie w n p ctx")
  case (Pair res w0)
  show ?thesis
  proof (cases res)
    case (Inl e)
    with assms Pair show ?thesis by (simp add: generate_and_respond_def)
  next
    case (Inr r0)
    from assms have "build_response w0 request http ctx r0 = Inr r \<and> w0 = w'"
      unfolding generate_and_respond_def Pair Inr by auto
    then have w0: "w0 = w'" and b: "build_response w0 request http ctx r0 = Inr r"
      by blast+
    from b obtain ec where
      "r = \<lparr>resp_bot_id = bot_id request,
            image_url = rstrip_slash (base_url http) @ fst r0,
            image_base64 = snd r0,
            status = ''success'',
            emotion_context = ec\<rparr>"
      by (cases "validate_context w0 ctx") (auto simp: build_response_def Let_def)
    then have "image_url r = rstrip_slash (base_url http) @ fst r0" "image_base64 r = snd r0"
      by simp_all
    with Pair Inr w0 show ?thesis
      by (cases r0) simp
  qed
qed

lemma generate_image_Inr:
  assumes "generate_image w request http = (Inr r, w')"
  shows "\<exists>n p ctx path b64. generate_and_save_selfie w n p ctx = (Inr (path, b64), w')
           \<and> image_url r = rstrip_slash (base_url http) @ path \<and> image_base64 r = b64"
proof -
  from assms obtain n p ctx where "generate_and_respond w request http n p ctx = (Inr r, w')"
    by (auto simp: generate_image_def Let_def split: if_splits option.splits)
  then show ?thesis
    using generate_and_respond_Inr by blast
qed

lemma generate_image_success:
  assumes "generate_image w request http = (Inr r, w')"
  shows "\<exists>tp bs. files w tp = Some bs
           \<and> image_url r = rstrip_slash (base_url http) @ ''/static/images/''
                 @ unique_filename (uuid4 w (uuid4_calls w))
           \<and> image_base64 r = b64encode bs
           \<and> w' = w\<lparr>files := (files w)(output_path (uuid4 w (uuid4_calls w)) \<mapsto> bs),
                     uuid4_calls := Suc (uuid4_calls w)\<rparr>"
proof -
  from generate_image_Inr [OF assms] obtain n p ctx path b64 where
    g: "generate_and_save_selfie w n p ctx = (Inr (path, b64), w')"
    and u: "image_url r = rstrip_slash (base_url http) @ path" and b: "image_base64 r = b64"
    by blast
  from generate_and_save_selfie_Inr [OF g] u b show ?thesis
    by (auto simp del: b64encode.simps)
qed

lemma example_selfie:
  "generate_and_save_selfie example_world n p (JDict kvs) =
     (Inr (''/static/images/123e4567-e89b-42d3-a456-426614174000.png'', ''UklGRv8=''),
      example_world\<lparr>files := (files example_world)
                       (''static/images/123e4567-e89b-42d3-a456-426614174000.png''
                          \<mapsto> [82, 73, 70, 70, 255]),
                    uuid4_calls := Suc 0\<rparr>)"
  by (simp add: generate_and_save_selfie_def example_world_simps example_try_generate)

lemma example_run:
  "generate_image example_world example_request http =
     (Inr \<lparr>resp_bot_id = ''delhi_mentor_male'',
           image_url = rstrip_slash (base_url http)
             @ ''/static/images/123e4567-e89b-42d3-a456-426614174000.png'',
           image_base64 = ''UklGRv8='',
           status = ''success'',
           emotion_context = [(''emotion'', ''delighted'')]\<rparr>,
      example_world\<lparr>files := (files example_world)
                       (''static/images/123e4567-e89b-42d3-a456-426614174000.png''
                          \<mapsto> [82, 73, 70, 70, 255]),
                    uuid4_calls := Suc 0\<rparr>)"
proof -
  have f: "find_base_image example_world (bot_id example_request) supported_extensions
             = Some ''photos/delhi_mentor_male.png''"
    by (simp add: example_base_image example_request_simps)
  have t: "get_bot_response_for_context example_world example_request n
             = Some ''What wonderful news!''" for n
    by (simp add: get_bot_response_for_context_def example_world_simps)
  have e: "extract_context example_world t = JDict [(''emotion'', JString ''delighted'')]" for t
    using example_world_simps(4) [of t] example_world_simps(5) by (rule extract_context_parsed)
  have v: "validate_context example_world (JDict [(''emotion'', JString ''delighted'')])
             = Some [(''emotion'', ''delighted'')]"
    by (simp add: validate_context_def validate_str_def)
  show ?thesis
    unfolding generate_image_found [OF example_bot_known f] t e
    using example_generate_and_respond [of example_world "[(''emotion'', JString ''delighted'')]"
        "[(''emotion'', ''delighted'')]" example_request http]
    by (simp add: example_world_simps v example_request_simps)
qed

lemma uuid_str_alphabet: "set (uuid_str u) \<subseteq> set ''0123456789abcdef-''"
proof
  fix c assume "c \<in> set (uuid_str u)"
  then have "c = CHR ''-'' \<or> c \<in> set ''0123456789abcdef''"
    by (rule uuid_str_chars)
  then show "c \<in> set ''0123456789abcdef-''"
    by auto
qed

text \<open>
  C10. \<open>generate_and_save_selfie\<close> changes the file store in one way only: on success it
  writes the image bytes to \<open>static/images/<uuid>.png\<close>, where \<open><uuid>\<close> is the 36-character
  printed form of the UUID drawn for this call, and returns \<open>/static/images/<uuid>.png\<close>;
  on failure the world is as before. Neither the base image path nor what the image
  service answered enters the name.
\<close>

theorem saved_under_static_images:
  assumes "generate_and_save_selfie w bot_name base_image_path context = (res, w')"
  shows "(\<forall>e. res = Inl e \<longrightarrow> w' = w)
       \<and> (\<forall>path b64. res = Inr (path, b64) \<longrightarrow>
            (\<exists>bs. files w' = (files w)(''static/images/'' @ uuid_str (uuid4 w (uuid4_calls w)) @ ''.png''
                                    \<mapsto> bs)
               \<and> path = ''/static/images/'' @ uuid_str (uuid4 w (uuid4_calls w)) @ ''.png''))
       \<and> length (uuid_str (uuid4 w (uuid4_calls w))) = 36
       \<and> set (uuid_str (uuid4 w (uuid4_calls w))) \<subseteq> set ''0123456789abcdef-''"
proof (intro conjI allI impI)
  show "w' = w" if "res = Inl e" for e
    using assms that generate_and_save_selfie_Inl by blast
  show "\<exists>bs. files w' = (files w)(''static/images/'' @ uuid_str (uuid4 w (uuid4_calls w)) @ ''.png''
                                    \<mapsto> bs)
               \<and> path = ''/static/images/'' @ uuid_str (uuid4 w (uuid4_calls w)) @ ''.png''"
    if "res = Inr (path, b64)" for path b64
  proof -
    from assms that have "generate_and_save_selfie w bot_name base_image_path context
                            = (Inr (path, b64), w')"
      by simp
    from generate_and_save_selfie_Inr [OF this] show ?thesis
      by (auto simp: output_path_def unique_filename_def)
  qed
  show "length (uuid_str (uuid4 w (uuid4_calls w))) = 36"
    by (rule uuid_str_length)
  show "set (uuid_str (uuid4 w (uuid4_calls w))) \<subseteq> set ''0123456789abcdef-''"
    by (rule uuid_str_alphabet)
qed

theorem saved_under_static_images_witness:
  "generate_and_save_selfie example_world ''Delhi Mentor Male'' ''photos/delhi_mentor_male.png''
       (JDict [(''emotion'', JString ''delighted'')]) =
     (Inr (''/static/images/123e4567-e89b-42d3-a456-426614174000.png'', ''UklGRv8=''),
      example_world\<lparr>files := (files example_world)
                       (''static/images/123e4567-e89b-42d3-a456-426614174000.png''
                          \<mapsto> [82, 73, 70, 70, 255]),
                    uuid4_calls := Suc 0\<rparr>)
   \<and> uuid_str (uuid4 example_world (uuid4_calls example_world))
       = ''123e4567-e89b-42d3-a456-426614174000''
   \<and> length ''123e4567-e89b-42d3-a456-426614174000'' = 36
   \<and> generate_and_save_selfie unset_world ''Delhi Mentor Male'' ''photos/delhi_mentor_male.png''
         (JDict [(''emotion'', JString ''delighted'')])
       = (Inl (HTTPException 503 ''Image generation service is not available.''), unset_world)"
proof -
  have q: "generate_and_save_selfie unset_world ''Delhi Mentor Male'' ''photos/delhi_mentor_male.png''
         (JDict [(''emotion'', JString ''delighted'')])
       = (Inl (HTTPException 503 ''Image generation service is not available.''), unset_world)"
    by (simp add: generate_and_save_selfie_def unset_world_simps)
  from saved_under_static_images [OF q] have q': "unset_world = unset_world"
    by blast
  note inst = saved_under_static_images [OF example_selfie
      [of "''Delhi Mentor Male''" "''photos/delhi_mentor_male.png''"
          "[(''emotion'', JString ''delighted'')]"]]
  have u: "uuid_str (uuid4 example_world (uuid4_calls example_world))
       = ''123e4567-e89b-42d3-a456-426614174000''"
    by (simp add: example_world_simps example_uuid_str)
  from inst have "length (uuid_str (uuid4 example_world (uuid4_calls example_world))) = 36"
    by blast
  then show ?thesis
    using example_selfie u q q' by simp
qed

text \<open>
  C3. After a successful request the file stored under \<open>static/images/<filename>\<close>, the
  name that ends \<open>image_url\<close>, holds exactly the bytes that decoding \<open>image_base64\<close> yields;
  they are the bytes read from the file the image service pointed to.
\<close>

theorem payload_equals_saved_file:
  assumes "generate_image w request http = (Inr r, w')"
  shows "\<exists>bs tp. b64decode (image_base64 r) = Some bs
           \<and> files w' (''static/images/'' @ unique_filename (uuid4 w (uuid4_calls w))) = Some bs
           \<and> files w tp = Some bs
           \<and> image_url r = rstrip_slash (base_url http) @ ''/static/images/''
                 @ unique_filename (uuid4 w (uuid4_calls w))"
proof -
  from generate_image_success [OF assms] obtain tp bs where
    f: "files w tp = Some bs"
    and u: "image_url r = rstrip_slash (base_url http) @ ''/static/images/''
                 @ unique_filename (uuid4 w (uuid4_calls w))"
    and b: "image_base64 r = b64encode bs"
    and w': "w' = w\<lparr>files := (files w)(output_path (uuid4 w (uuid4_calls w)) \<mapsto> bs),
                     uuid4_calls := Suc (uuid4_calls w)\<rparr>"
    by blast
  have "b64decode (image_base64 r) = Some bs"
    unfolding b by (rule b64_roundtrip)
  moreover have "files w' (''static/images/'' @ unique_filename (uuid4 w (uuid4_calls w))) = Some bs"
    unfolding w' by (simp add: output_path_def)
  ultimately show ?thesis
    using f u by blast
qed

theorem payload_equals_saved_file_witness:
  "generate_image example_world example_request example_http =
     (Inr \<lparr>resp_bot_id = ''delhi_mentor_male'',
           image_url = ''http://testserver/static/images/123e4567-e89b-42d3-a456-426614174000.png'',
           image_base64 = ''UklGRv8='',
           status = ''success'',
           emotion_context = [(''emotion'', ''delighted'')]\<rparr>,
      example_world\<lparr>files := (files example_world)
                       (''static/images/123e4567-e89b-42d3-a456-426614174000.png''
                          \<mapsto> [82, 73, 70, 70, 255]),
                    uuid4_calls := Suc 0\<rparr>)
   \<and> b64decode ''UklGRv8='' = Some [82, 73, 70, 70, 255]"
proof -
  have g: "generate_image example_world example_request example_http =
     (Inr \<lparr>resp_bot_id = ''delhi_mentor_male'',
           image_url = ''http://testserver/static/images/123e4567-e89b-42d3-a456-426614174000.png'',
           image_base64 = ''UklGRv8='',
           status = ''success'',
           emotion_context = [(''emotion'', ''delighted'')]\<rparr>,
      example_world\<lparr>files := (files example_world)
                       (''static/images/123e4567-e89b-42d3-a456-426614174000.png''
                          \<mapsto> [82, 73, 70, 70, 255]),
                    uuid4_calls := Suc 0\<rparr>)"
    using example_run [of example_http] by (simp add: example_http_root)
  have n: "''static/images/'' @ unique_filename (uuid4 example_world (uuid4_calls example_world))
             = ''static/images/123e4567-e89b-42d3-a456-426614174000.png''"
    by (simp add: unique_filename_def example_world_simps example_uuid_str)
  from payload_equals_saved_file [OF g] obtain bs where
    "b64decode ''UklGRv8='' = Some bs"
    and "((files example_world)
           (''static/images/123e4567-e89b-42d3-a456-426614174000.png'' \<mapsto> [82, 73, 70, 70, 255]))
           ''static/images/123e4567-e89b-42d3-a456-426614174000.png'' = Some bs"
    unfolding n by (auto simp del: b64decode.simps)
  then have "b64decode ''UklGRv8='' = Some [82, 73, 70, 70, 255]"
    by (simp del: b64decode.simps)
  with g show ?thesis by blast
qed

section \<open>The returned URL\<close>

lemma rstrip_slash_origin:
  assumes "authority \<noteq> []" and "CHR ''/'' \<notin> set authority"
  shows "rstrip_slash (scheme @ ''://'' @ authority @ ''/'') = scheme @ ''://'' @ authority"
proof -
  from assms(1) obtain a as where r: "rev authority = a # as"
    by (cases "rev authority") simp_all
  then have "a \<in> set authority"
    by (metis list.set_intros(1) set_rev)
  with assms(2) have a: "a \<noteq> CHR ''/''" by blast
  have "rev (scheme @ ''://'' @ authority @ ''/'')
          = CHR ''/'' # a # as @ rev (scheme @ ''://'')"
    by (simp add: r)
  then have "dropWhile (\<lambda>c. c = CHR ''/'') (rev (scheme @ ''://'' @ authority @ ''/''))
          = a # as @ rev (scheme @ ''://'')"
    using a by simp
  then have "rstrip_slash (scheme @ ''://'' @ authority @ ''/'')
          = rev (a # as @ rev (scheme @ ''://''))"
    unfolding rstrip_slash_def by (rule arg_cong)
  also have "\<dots> = (scheme @ ''://'') @ rev (a # as)"
    by simp
  also have "rev (a # as) = authority"
    using r by (metis rev_rev_ident)
  finally show ?thesis by simp
qed

lemma url_path_origin:
  assumes "CHR '':'' \<notin> set scheme"
    and "CHR ''/'' \<notin> set authority" "CHR ''?'' \<notin> set authority" "CHR ''#'' \<notin> set authority"
    and "CHR ''?'' \<notin> set p" "CHR ''#'' \<notin> set p"
  shows "url_path (scheme @ ''://'' @ authority @ ''/'' @ p) = ''/'' @ p"
proof -
  have 1: "dropWhile (\<lambda>c. c \<noteq> CHR '':'') (scheme @ ''://'' @ authority @ ''/'' @ p)
             = ''://'' @ authority @ ''/'' @ p"
  proof -
    have "dropWhile (\<lambda>c. c \<noteq> CHR '':'') (scheme @ (''://'' @ authority @ ''/'' @ p))
            = dropWhile (\<lambda>c. c \<noteq> CHR '':'') (''://'' @ authority @ ''/'' @ p)"
      using assms(1) by (intro dropWhile_append2) auto
    then show ?thesis by simp
  qed
  have 2: "dropWhile (\<lambda>c. c \<noteq> CHR ''/'' \<and> c \<noteq> CHR ''?'' \<and> c \<noteq> CHR ''#'')
             (authority @ ''/'' @ p) = ''/'' @ p"
  proof -
    have "dropWhile (\<lambda>c. c \<noteq> CHR ''/'' \<and> c \<noteq> CHR ''?'' \<and> c \<noteq> CHR ''#'')
             (authority @ (''/'' @ p))
          = dropWhile (\<lambda>c. c \<noteq> CHR ''/'' \<and> c \<noteq> CHR ''?'' \<and> c \<noteq> CHR ''#'') (''/'' @ p)"
      using assms(2-4) by (intro dropWhile_append2) auto
    then show ?thesis by simp
  qed
  have 3: "takeWhile (\<lambda>c. c \<noteq> CHR ''?'' \<and> c \<noteq> CHR ''#'') (''/'' @ p) = ''/'' @ p"
    using assms(5,6) by (intro takeWhile_eq_all_conv [THEN iffD2]) auto
  show ?thesis
    unfolding url_path_def Let_def 1
    using 2 3 by simp
qed

lemma unique_filename_no_delimiter:
  "CHR ''?'' \<notin> set (''static/images/'' @ unique_filename u)"
  "CHR ''#'' \<notin> set (''static/images/'' @ unique_filename u)"
  using uuid_str_no_delimiter [of u] by (simp_all add: unique_filename_def)

lemma rstrip_slash_split:
  "\<exists>ys. p = rstrip_slash p @ ys \<and> list_all (\<lambda>c. c = CHR ''/'') ys"
proof -
  have "rev (takeWhile (\<lambda>c. c = CHR ''/'') (rev p) @ dropWhile (\<lambda>c. c = CHR ''/'') (rev p))
          = rev (rev p)"
    by (simp only: takeWhile_dropWhile_id)
  then have "p = rstrip_slash p @ rev (takeWhile (\<lambda>c. c = CHR ''/'') (rev p))"
    by (simp only: rev_append rev_rev_ident rstrip_slash_def)
  moreover have "list_all (\<lambda>c. c = CHR ''/'') (rev (takeWhile (\<lambda>c. c = CHR ''/'') (rev p)))"
    by (simp add: list_all_iff) (metis set_takeWhileD)
  ultimately show ?thesis by blast
qed

lemma rstrip_slash_set: "set (rstrip_slash p) \<subseteq> set p"
  using rstrip_slash_split [of p] by (metis Un_upper1 set_append)

lemma rstrip_slash_hd:
  assumes "p = [] \<or> hd p = CHR ''/''"
  shows "rstrip_slash p = [] \<or> hd (rstrip_slash p) = CHR ''/''"
proof (cases "rstrip_slash p = []")
  case True
  then show ?thesis by simp
next
  case False
  from rstrip_slash_split [of p] obtain ys where "p = rstrip_slash p @ ys" by blast
  then have "hd p = hd (rstrip_slash p)"
    using False by (metis hd_append2)
  moreover have "p \<noteq> []" using False by (auto simp add: rstrip_slash_def)
  ultimately show ?thesis using assms by simp
qed

lemma rstrip_slash_Nil: "(rstrip_slash p = []) = list_all (\<lambda>c. c = CHR ''/'') p"
  by (simp add: rstrip_slash_def dropWhile_eq_Nil_conv list_all_iff)

lemma rstrip_slash_append:
  assumes "xs \<noteq> []" and "last xs \<noteq> CHR ''/''"
  shows "rstrip_slash (xs @ ys) = xs @ rstrip_slash ys"
proof -
  from assms(1) obtain a as where r: "rev xs = a # as"
    by (cases "rev xs") simp_all
  then have "last xs = a"
    by (metis last_rev list.sel(1) rev_rev_ident)
  with assms(2) have a: "a \<noteq> CHR ''/''" by simp
  have x: "dropWhile (\<lambda>c. c = CHR ''/'') (rev xs) = rev xs"
    unfolding r using a by simp
  have "dropWhile (\<lambda>c. c = CHR ''/'') (rev ys @ rev xs)
          = dropWhile (\<lambda>c. c = CHR ''/'') (rev ys) @ rev xs"
  proof (cases "\<forall>c \<in> set (rev ys). c = CHR ''/''")
    case True
    then have 1: "dropWhile (\<lambda>c. c = CHR ''/'') (rev ys @ rev xs)
                   = dropWhile (\<lambda>c. c = CHR ''/'') (rev xs)"
      by (intro dropWhile_append2) blast
    from True have 2: "dropWhile (\<lambda>c. c = CHR ''/'') (rev ys) = []"
      by (simp only: dropWhile_eq_Nil_conv)
    show ?thesis unfolding 1 2 x by simp
  next
    case False
    then obtain c where "c \<in> set (rev ys)" "\<not> c = CHR ''/''" by blast
    then show ?thesis by (rule dropWhile_append1)
  qed
  then show ?thesis by (simp add: rstrip_slash_def)
qed

lemma url_parts:
  assumes "CHR '':'' \<notin> set s"
    and "CHR ''/'' \<notin> set a" "CHR ''?'' \<notin> set a" "CHR ''#'' \<notin> set a"
    and "p = [] \<or> hd p = CHR ''/''"
    and "CHR ''?'' \<notin> set p" "CHR ''#'' \<notin> set p"
  shows "url_scheme (s @ ''://'' @ a @ p) = s"
    and "take 3 (dropWhile (\<lambda>c. c \<noteq> CHR '':'') (s @ ''://'' @ a @ p)) = ''://''"
    and "url_authority (s @ ''://'' @ a @ p) = a"
    and "url_path (s @ ''://'' @ a @ p) = p"
proof -
  have 0: "takeWhile (\<lambda>c. c \<noteq> CHR '':'') (s @ (''://'' @ a @ p)) = s"
  proof -
    have "takeWhile (\<lambda>c. c \<noteq> CHR '':'') (s @ (''://'' @ a @ p))
            = s @ takeWhile (\<lambda>c. c \<noteq> CHR '':'') (''://'' @ a @ p)"
      using assms(1) by (intro takeWhile_append2) auto
    then show ?thesis by simp
  qed
  have 1: "dropWhile (\<lambda>c. c \<noteq> CHR '':'') (s @ (''://'' @ a @ p)) = ''://'' @ a @ p"
  proof -
    have "dropWhile (\<lambda>c. c \<noteq> CHR '':'') (s @ (''://'' @ a @ p))
            = dropWhile (\<lambda>c. c \<noteq> CHR '':'') (''://'' @ a @ p)"
      using assms(1) by (intro dropWhile_append2) auto
    then show ?thesis by simp
  qed
  have 2: "takeWhile (\<lambda>c. c \<noteq> CHR ''/'' \<and> c \<noteq> CHR ''?'' \<and> c \<noteq> CHR ''#'') (a @ p) = a"
  proof -
    have "takeWhile (\<lambda>c. c \<noteq> CHR ''/'' \<and> c \<noteq> CHR ''?'' \<and> c \<noteq> CHR ''#'') (a @ p)
            = a @ takeWhile (\<lambda>c. c \<noteq> CHR ''/'' \<and> c \<noteq> CHR ''?'' \<and> c \<noteq> CHR ''#'') p"
      using assms(2-4) by (intro takeWhile_append2) auto
    moreover have "takeWhile (\<lambda>c. c \<noteq> CHR ''/'' \<and> c \<noteq> CHR ''?'' \<and> c \<noteq> CHR ''#'') p = []"
      using assms(5) by (cases p) simp_all
    ultimately show ?thesis by simp
  qed
  have 3: "dropWhile (\<lambda>c. c \<noteq> CHR ''/'' \<and> c \<noteq> CHR ''?'' \<and> c \<noteq> CHR ''#'') (a @ p) = p"
  proof -
    have "dropWhile (\<lambda>c. c \<noteq> CHR ''/'' \<and> c \<noteq> CHR ''?'' \<and> c \<noteq> CHR ''#'') (a @ p)
            = dropWhile (\<lambda>c. c \<noteq> CHR ''/'' \<and> c \<noteq> CHR ''?'' \<and> c \<noteq> CHR ''#'') p"
      using assms(2-4) by (intro dropWhile_append2) auto
    moreover have "dropWhile (\<lambda>c. c \<noteq> CHR ''/'' \<and> c \<noteq> CHR ''?'' \<and> c \<noteq> CHR ''#'') p = p"
      using assms(5) by (cases p) simp_all
    ultimately show ?thesis by simp
  qed
  have 4: "takeWhile (\<lambda>c. c \<noteq> CHR ''?'' \<and> c \<noteq> CHR ''#'') p = p"
    using assms(6,7) by (intro takeWhile_eq_all_conv [THEN iffD2]) auto
  show "url_scheme (s @ ''://'' @ a @ p) = s"
    unfolding url_scheme_def by (rule 0)
  show "take 3 (dropWhile (\<lambda>c. c \<noteq> CHR '':'') (s @ ''://'' @ a @ p)) = ''://''"
    unfolding 1 by simp
  show "url_authority (s @ ''://'' @ a @ p) = a"
    unfolding url_authority_def 1 using 2 by simp
  show "url_path (s @ ''://'' @ a @ p) = p"
    unfolding url_path_def Let_def 1 using 3 4 by simp
qed

lemma absolute_url_decompose:
  assumes "is_absolute_url u" and "CHR ''?'' \<notin> set u" and "CHR ''#'' \<notin> set u"
  obtains s a p where "u = s @ ''://'' @ a @ p"
    and "is_scheme s" and "CHR '':'' \<notin> set s"
    and "a \<noteq> []" and "CHR ''/'' \<notin> set a" and "CHR ''?'' \<notin> set a" and "CHR ''#'' \<notin> set a"
    and "p = [] \<or> hd p = CHR ''/''" and "CHR ''?'' \<notin> set p" and "CHR ''#'' \<notin> set p"
proof -
  define s where "s = takeWhile (\<lambda>c. c \<noteq> CHR '':'') u"
  define rest0 where "rest0 = dropWhile (\<lambda>c. c \<noteq> CHR '':'') u"
  define rest where "rest = drop 3 rest0"
  define a where "a = takeWhile (\<lambda>c. c \<noteq> CHR ''/'' \<and> c \<noteq> CHR ''?'' \<and> c \<noteq> CHR ''#'') rest"
  define p where "p = dropWhile (\<lambda>c. c \<noteq> CHR ''/'' \<and> c \<noteq> CHR ''?'' \<and> c \<noteq> CHR ''#'') rest"
  have u0: "u = s @ rest0" by (simp add: s_def rest0_def)
  have t: "take 3 rest0 = ''://''" and sc: "is_scheme s" and an: "a \<noteq> []"
    using assms(1)
    by (simp_all add: is_absolute_url_def rest0_def url_scheme_def s_def url_authority_def
        a_def rest_def)
  have "rest0 = take 3 rest0 @ drop 3 rest0" by simp
  then have r0: "rest0 = ''://'' @ rest" unfolding t rest_def .
  have r: "rest = a @ p" by (simp add: a_def p_def)
  have u: "u = s @ ''://'' @ a @ p" using u0 r0 r by simp
  have s: "CHR '':'' \<notin> set s"
  proof
    assume "CHR '':'' \<in> set s"
    then have "CHR '':'' \<noteq> CHR '':''"
      unfolding s_def by (rule set_takeWhileD [THEN conjunct2])
    then show False by simp
  qed
  have a0: "c \<noteq> CHR ''/'' \<and> c \<noteq> CHR ''?'' \<and> c \<noteq> CHR ''#''" if "c \<in> set a" for c
    using that unfolding a_def by (rule set_takeWhileD [THEN conjunct2])
  have a: "CHR ''/'' \<notin> set a" "CHR ''?'' \<notin> set a" "CHR ''#'' \<notin> set a"
    using a0 by blast+
  have q: "CHR ''?'' \<notin> set p" "CHR ''#'' \<notin> set p"
    using assms(2,3) u by auto
  have h: "p = [] \<or> hd p = CHR ''/''"
  proof (cases "p = []")
    case True then show ?thesis by simp
  next
    case False
    then have "\<not> (hd p \<noteq> CHR ''/'' \<and> hd p \<noteq> CHR ''?'' \<and> hd p \<noteq> CHR ''#'')"
      unfolding p_def by (rule hd_dropWhile)
    moreover have "hd p \<in> set p" using False by simp
    ultimately show ?thesis using q by auto
  qed
  from u sc s an a(1) a(2) a(3) h q(1) q(2) show ?thesis by (rule that)
qed


text \<open>
  C4, as the code has it. After a successful request \<open>image_url\<close> is the request's base
  URL without its trailing slashes, followed by \<open>/static/images/<filename>\<close>, the path the
  artifact was saved under. When the base URL is an absolute URL without query and
  fragment, \<open>image_url\<close> is an absolute URL with the scheme and the authority of the base
  URL, and its path component is the path of the base URL without its trailing slashes,
  followed by \<open>/static/images/<filename>\<close>. The path component is \<open>/static/images/<filename>\<close>
  itself exactly when the path of the base URL consists of slashes only, the application
  served at the root.
\<close>

theorem image_url_from_base_url:
  assumes "generate_image w request http = (Inr r, w')"
  shows "image_url r = rstrip_slash (base_url http) @ ''/static/images/''
             @ unique_filename (uuid4 w (uuid4_calls w))
       \<and> (\<exists>bs. files w' (''static/images/'' @ unique_filename (uuid4 w (uuid4_calls w))) = Some bs)
       \<and> (is_absolute_url (base_url http)
             \<longrightarrow> CHR ''?'' \<notin> set (base_url http)
             \<longrightarrow> CHR ''#'' \<notin> set (base_url http)
             \<longrightarrow> is_absolute_url (image_url r)
               \<and> url_scheme (image_url r) = url_scheme (base_url http)
               \<and> url_authority (image_url r) = url_authority (base_url http)
               \<and> url_path (image_url r)
                   = rstrip_slash (url_path (base_url http)) @ ''/static/images/''
                       @ unique_filename (uuid4 w (uuid4_calls w))
               \<and> ((url_path (image_url r)
                     = ''/static/images/'' @ unique_filename (uuid4 w (uuid4_calls w)))
                  = list_all (\<lambda>c. c = CHR ''/'') (url_path (base_url http))))
       \<and> (\<forall>scheme authority.
             base_url http = scheme @ ''://'' @ authority @ ''/''
             \<longrightarrow> CHR '':'' \<notin> set scheme
             \<longrightarrow> authority \<noteq> []
             \<longrightarrow> CHR ''/'' \<notin> set authority
             \<longrightarrow> CHR ''?'' \<notin> set authority
             \<longrightarrow> CHR ''#'' \<notin> set authority
             \<longrightarrow> image_url r = scheme @ ''://'' @ authority @ ''/static/images/''
                     @ unique_filename (uuid4 w (uuid4_calls w))
               \<and> url_path (image_url r)
                   = ''/static/images/'' @ unique_filename (uuid4 w (uuid4_calls w)))"
proof -
  define fname where "fname = unique_filename (uuid4 w (uuid4_calls w))"
  from generate_image_success [OF assms] obtain tp bs where
    u: "image_url r = rstrip_slash (base_url http) @ ''/static/images/'' @ fname"
    and w': "w' = w\<lparr>files := (files w)(output_path (uuid4 w (uuid4_calls w)) \<mapsto> bs),
                     uuid4_calls := Suc (uuid4_calls w)\<rparr>"
    unfolding fname_def by blast
  have f: "files w' (''static/images/'' @ fname) = Some bs"
    unfolding w' fname_def by (simp add: output_path_def)
  have d: "CHR ''?'' \<notin> set (''/static/images/'' @ fname)"
    "CHR ''#'' \<notin> set (''/static/images/'' @ fname)"
    using unique_filename_no_delimiter [of "uuid4 w (uuid4_calls w)"]
    unfolding fname_def by simp_all
  have p: "image_url r = scheme @ ''://'' @ authority @ ''/static/images/'' @ fname
               \<and> url_path (image_url r) = ''/static/images/'' @ fname"
    if b: "base_url http = scheme @ ''://'' @ authority @ ''/''"
      and s: "CHR '':'' \<notin> set scheme" and n: "authority \<noteq> []"
      and a: "CHR ''/'' \<notin> set authority" "CHR ''?'' \<notin> set authority" "CHR ''#'' \<notin> set authority"
    for scheme authority
  proof -
    have "rstrip_slash (base_url http) = scheme @ ''://'' @ authority"
      unfolding b using n a(1) by (rule rstrip_slash_origin)
    with u have i: "image_url r = scheme @ ''://'' @ authority @ ''/''
                     @ (''static/images/'' @ fname)"
      by simp
    have "url_path (image_url r) = ''/'' @ (''static/images/'' @ fname)"
      unfolding i fname_def using s a unique_filename_no_delimiter by (rule url_path_origin)
    with i show ?thesis by simp
  qed
  have q: "is_absolute_url (image_url r)
               \<and> url_scheme (image_url r) = url_scheme (base_url http)
               \<and> url_authority (image_url r) = url_authority (base_url http)
               \<and> url_path (image_url r)
                   = rstrip_slash (url_path (base_url http)) @ ''/static/images/'' @ fname
               \<and> ((url_path (image_url r) = ''/static/images/'' @ fname)
                  = list_all (\<lambda>c. c = CHR ''/'') (url_path (base_url http)))"
    if ab: "is_absolute_url (base_url http)"
      and nq: "CHR ''?'' \<notin> set (base_url http)" and nf: "CHR ''#'' \<notin> set (base_url http)"
  proof -
    from ab nq nf obtain s a p where
      b: "base_url http = s @ ''://'' @ a @ p"
      and sc: "is_scheme s" and s: "CHR '':'' \<notin> set s"
      and an: "a \<noteq> []"
      and a: "CHR ''/'' \<notin> set a" "CHR ''?'' \<notin> set a" "CHR ''#'' \<notin> set a"
      and h: "p = [] \<or> hd p = CHR ''/''"
      and pd: "CHR ''?'' \<notin> set p" "CHR ''#'' \<notin> set p"
      by (rule absolute_url_decompose)
    define rp where "rp = rstrip_slash p"
    define p' where "p' = rp @ ''/static/images/'' @ fname"
    have "last a \<in> set a"
      using an by (rule last_in_set)
    then have "last a \<noteq> CHR ''/''"
      using a(1) by auto
    then have la: "last (s @ ''://'' @ a) \<noteq> CHR ''/''"
      using an by simp
    have "rstrip_slash ((s @ ''://'' @ a) @ p) = (s @ ''://'' @ a) @ rstrip_slash p"
      using la by (intro rstrip_slash_append) simp_all
    then have rb: "rstrip_slash (base_url http) = s @ ''://'' @ a @ rp"
      unfolding b rp_def by simp
    have i: "image_url r = s @ ''://'' @ a @ p'"
      unfolding u rb p'_def by simp
    have rh: "rp = [] \<or> hd rp = CHR ''/''"
      unfolding rp_def using h by (rule rstrip_slash_hd)
    have h': "p' = [] \<or> hd p' = CHR ''/''"
      using rh unfolding p'_def by (cases rp) simp_all
    have rs: "CHR ''?'' \<notin> set rp" "CHR ''#'' \<notin> set rp"
      using pd rstrip_slash_set [of p] unfolding rp_def by blast+
    have pd': "CHR ''?'' \<notin> set p'" "CHR ''#'' \<notin> set p'"
      using rs d unfolding p'_def by simp_all
    note base = url_parts [OF s a h pd, folded b]
    note img = url_parts [OF s a h' pd', folded i]
    have 1: "is_absolute_url (image_url r)"
      unfolding is_absolute_url_def img(1) img(2) img(3) using sc an by simp
    have 2: "url_path (image_url r)
               = rstrip_slash (url_path (base_url http)) @ ''/static/images/'' @ fname"
      unfolding img(4) base(4) p'_def rp_def by (rule refl)
    have 3: "(url_path (image_url r) = ''/static/images/'' @ fname)
                  = list_all (\<lambda>c. c = CHR ''/'') (url_path (base_url http))"
      unfolding 2 rstrip_slash_Nil [symmetric] by simp
    show ?thesis
      using 1 2 3 by (simp only: img(1) img(3) base(1) base(3) simp_thms)
  qed
  have e: "\<exists>bs. files w' (''static/images/'' @ fname) = Some bs"
    using f by (rule exI)
  show ?thesis
    unfolding fname_def [symmetric]
    by (intro conjI impI allI u e q [THEN conjunct1] q [THEN conjunct2, THEN conjunct1]
        q [THEN conjunct2, THEN conjunct2, THEN conjunct1]
        q [THEN conjunct2, THEN conjunct2, THEN conjunct2, THEN conjunct1]
        q [THEN conjunct2, THEN conjunct2, THEN conjunct2, THEN conjunct2]
        p [THEN conjunct1] p [THEN conjunct2])
qed

theorem image_url_from_base_url_witness:
  "generate_image example_world example_request example_http =
     (Inr \<lparr>resp_bot_id = ''delhi_mentor_male'',
           image_url = ''http://testserver/static/images/123e4567-e89b-42d3-a456-426614174000.png'',
           image_base64 = ''UklGRv8='',
           status = ''success'',
           emotion_context = [(''emotion'', ''delighted'')]\<rparr>,
      served_world)
   \<and> base_url example_http = ''http'' @ ''://'' @ ''testserver'' @ ''/''
   \<and> is_absolute_url (base_url example_http)
   \<and> CHR ''?'' \<notin> set (base_url example_http)
   \<and> CHR ''#'' \<notin> set (base_url example_http)
   \<and> url_path (base_url example_http) = ''/''
   \<and> is_absolute_url ''http://testserver/static/images/123e4567-e89b-42d3-a456-426614174000.png''
   \<and> url_scheme ''http://testserver/static/images/123e4567-e89b-42d3-a456-426614174000.png''
       = ''http''
   \<and> url_authority ''http://testserver/static/images/123e4567-e89b-42d3-a456-426614174000.png''
       = ''testserver''
   \<and> url_path ''http://testserver/static/images/123e4567-e89b-42d3-a456-426614174000.png''
       = ''/static/images/123e4567-e89b-42d3-a456-426614174000.png''
   \<and> generate_image example_world example_request proxied_http =
     (Inr \<lparr>resp_bot_id = ''delhi_mentor_male'',
           image_url = ''http://testserver/api/static/images/123e4567-e89b-42d3-a456-426614174000.png'',
           image_base64 = ''UklGRv8='',
           status = ''success'',
           emotion_context = [(''emotion'', ''delighted'')]\<rparr>,
      served_world)
   \<and> is_absolute_url (base_url proxied_http)
   \<and> CHR ''?'' \<notin> set (base_url proxied_http)
   \<and> CHR ''#'' \<notin> set (base_url proxied_http)
   \<and> url_path (base_url proxied_http) = ''/api/''
   \<and> is_absolute_url
       ''http://testserver/api/static/images/123e4567-e89b-42d3-a456-426614174000.png''
   \<and> url_authority
       ''http://testserver/api/static/images/123e4567-e89b-42d3-a456-426614174000.png''
       = ''testserver''
   \<and> url_path ''http://testserver/api/static/images/123e4567-e89b-42d3-a456-426614174000.png''
       = ''/api/static/images/123e4567-e89b-42d3-a456-426614174000.png''"
proof -
  have g: "generate_image example_world example_request example_http =
     (Inr \<lparr>resp_bot_id = ''delhi_mentor_male'',
           image_url = ''http://testserver/static/images/123e4567-e89b-42d3-a456-426614174000.png'',
           image_base64 = ''UklGRv8='',
           status = ''success'',
           emotion_context = [(''emotion'', ''delighted'')]\<rparr>,
      served_world)"
    using example_run [of example_http] by (simp add: example_http_root served_world_def)
  have rp: "rstrip_slash (base_url proxied_http) = ''http://testserver/api''"
    by (simp add: proxied_http_def rstrip_slash_def)
  have g': "generate_image example_world example_request proxied_http =
     (Inr \<lparr>resp_bot_id = ''delhi_mentor_male'',
           image_url = ''http://testserver/api/static/images/123e4567-e89b-42d3-a456-426614174000.png'',
           image_base64 = ''UklGRv8='',
           status = ''success'',
           emotion_context = [(''emotion'', ''delighted'')]\<rparr>,
      served_world)"
    using example_run [of proxied_http] by (simp add: rp served_world_def)
  have b: "base_url example_http = ''http'' @ ''://'' @ ''testserver'' @ ''/''"
    by (simp add: example_http_def)
  have n: "unique_filename (uuid4 example_world (uuid4_calls example_world))
             = ''123e4567-e89b-42d3-a456-426614174000.png''"
    by (simp add: unique_filename_def example_world_simps example_uuid_str)
  have sch: "is_scheme ''http''"
    by (simp add: is_scheme_def scheme_char_def is_lower_def is_upper_def)
  have a: "is_absolute_url (base_url example_http)"
    "CHR ''?'' \<notin> set (base_url example_http)" "CHR ''#'' \<notin> set (base_url example_http)"
    "url_path (base_url example_http) = ''/''"
    "url_scheme (base_url example_http) = ''http''"
    "url_authority (base_url example_http) = ''testserver''"
    by (simp_all add: example_http_def is_absolute_url_def url_scheme_def url_authority_def
        url_path_def sch)
  have a': "is_absolute_url (base_url proxied_http)"
    "CHR ''?'' \<notin> set (base_url proxied_http)" "CHR ''#'' \<notin> set (base_url proxied_http)"
    "url_path (base_url proxied_http) = ''/api/''"
    "url_authority (base_url proxied_http) = ''testserver''"
    by (simp_all add: proxied_http_def is_absolute_url_def url_scheme_def url_authority_def
        url_path_def sch)
  have h: "CHR '':'' \<notin> set ''http''" "''testserver'' \<noteq> []" "CHR ''/'' \<notin> set ''testserver''"
    "CHR ''?'' \<notin> set ''testserver''" "CHR ''#'' \<notin> set ''testserver''"
    by simp_all
  note inst = image_url_from_base_url [OF g]
  note inst' = image_url_from_base_url [OF g']
  note c = inst [THEN conjunct2, THEN conjunct2, THEN conjunct1, rule_format, OF a(1) a(2) a(3)]
  note c' = inst' [THEN conjunct2, THEN conjunct2, THEN conjunct1, rule_format,
      OF a'(1) a'(2) a'(3)]
  have r1: "rstrip_slash ''/'' = []" "rstrip_slash ''/api/'' = ''/api''"
    by (simp_all add: rstrip_slash_def)
  have 1: "is_absolute_url ''http://testserver/static/images/123e4567-e89b-42d3-a456-426614174000.png''"
    using c [THEN conjunct1] by simp
  have 2: "url_scheme ''http://testserver/static/images/123e4567-e89b-42d3-a456-426614174000.png''
       = ''http''"
    using c [THEN conjunct2, THEN conjunct1] by (simp add: a(5))
  have 3: "url_authority ''http://testserver/static/images/123e4567-e89b-42d3-a456-426614174000.png''
       = ''testserver''"
    using c [THEN conjunct2, THEN conjunct2, THEN conjunct1] by (simp add: a(6))
  have 4: "url_path ''http://testserver/static/images/123e4567-e89b-42d3-a456-426614174000.png''
       = ''/static/images/123e4567-e89b-42d3-a456-426614174000.png''"
    using c [THEN conjunct2, THEN conjunct2, THEN conjunct2, THEN conjunct1]
    by (simp add: a(4) n r1)
  have 5: "is_absolute_url
       ''http://testserver/api/static/images/123e4567-e89b-42d3-a456-426614174000.png''"
    using c' [THEN conjunct1] by simp
  have 6: "url_authority
       ''http://testserver/api/static/images/123e4567-e89b-42d3-a456-426614174000.png''
       = ''testserver''"
    using c' [THEN conjunct2, THEN conjunct2, THEN conjunct1] by (simp add: a'(5))
  have 7: "url_path ''http://testserver/api/static/images/123e4567-e89b-42d3-a456-426614174000.png''
       = ''/api/static/images/123e4567-e89b-42d3-a456-426614174000.png''"
    using c' [THEN conjunct2, THEN conjunct2, THEN conjunct2, THEN conjunct1]
    by (simp add: a'(4) n r1)
  have 8: "url_path ''http://testserver/static/images/123e4567-e89b-42d3-a456-426614174000.png''
       = ''/static/images/'' @ unique_filename (uuid4 example_world (uuid4_calls example_world))"
    using inst [THEN conjunct2, THEN conjunct2, THEN conjunct2, rule_format,
        OF b h(1) h(2) h(3) h(4) h(5), THEN conjunct2]
    by simp
  show ?thesis
    using g g' b a(1-4) a'(1-4) 1 2 3 4 5 6 7 8 by (simp only: simp_thms)
qed

text \<open>
  The claim as the specification words it, the path component of \<open>image_url\<close> equal to the
  relative path of the artifact, fails for the server reached through the prefix \<open>/api\<close>:
  the artifact is saved under \<open>static/images\<close> and the URL's path starts with \<open>/api\<close>.
\<close>

theorem image_url_path_counterexample:
  "generate_image example_world example_request proxied_http =
     (Inr \<lparr>resp_bot_id = ''delhi_mentor_male'',
           image_url = ''http://testserver/api/static/images/123e4567-e89b-42d3-a456-426614174000.png'',
           image_base64 = ''UklGRv8='',
           status = ''success'',
           emotion_context = [(''emotion'', ''delighted'')]\<rparr>,
      served_world)
   \<and> files served_world ''static/images/123e4567-e89b-42d3-a456-426614174000.png''
       = Some [82, 73, 70, 70, 255]
   \<and> url_path ''http://testserver/api/static/images/123e4567-e89b-42d3-a456-426614174000.png''
       = ''/api/static/images/123e4567-e89b-42d3-a456-426614174000.png''
   \<and> url_path ''http://testserver/api/static/images/123e4567-e89b-42d3-a456-426614174000.png''
       \<noteq> ''/static/images/123e4567-e89b-42d3-a456-426614174000.png''"
proof -
  have "rstrip_slash (base_url proxied_http) = ''http://testserver/api''"
    by (simp add: proxied_http_def rstrip_slash_def)
  then have "generate_image example_world example_request proxied_http =
     (Inr \<lparr>resp_bot_id = ''delhi_mentor_male'',
           image_url = ''http://testserver/api/static/images/123e4567-e89b-42d3-a456-426614174000.png'',
           image_base64 = ''UklGRv8='',
           status = ''success'',
           emotion_context = [(''emotion'', ''delighted'')]\<rparr>,
      served_world)"
    using example_run [of proxied_http] by (simp add: served_world_def)
  moreover have "files served_world ''static/images/123e4567-e89b-42d3-a456-426614174000.png''
       = Some [82, 73, 70, 70, 255]"
    by (simp add: served_world_def)
  moreover have "url_path ''http://testserver/api/static/images/123e4567-e89b-42d3-a456-426614174000.png''
       = ''/api/static/images/123e4567-e89b-42d3-a456-426614174000.png''"
    by (simp add: url_path_def)
  ultimately show ?thesis by simp
qed

section \<open>Two requests\<close>






end
